theory Spec2Isabelle
  imports Complex_Main
begin

section \<open>Currency converter screen: validation and response mapping of App.js\<close>

text \<open>
  The development embeds \<^verbatim>\<open>validateInput\<close> and \<^verbatim>\<open>handleConvert\<close> of the
  component \<^verbatim>\<open>MainScreen\<close> (App.js, lines 42 to 117) together with the parts of the
  JavaScript language they rely on: strings, \<^verbatim>\<open>String.prototype.trim\<close>, the regular
  expression \<^verbatim>\<open>/^[A-Z]{3}$/\<close>, \<^verbatim>\<open>parseFloat\<close>, Number values, truthiness, property
  lookup on parsed JSON and the multiplication operator.
\<close>

subsection \<open>Strings\<close>

text \<open>
  A JavaScript string is the sequence of its UTF-16 code units. Literals of the source are
  written \<open>js ''...''\<close>.
\<close>

type_synonym jsstring = "nat list"

definition js :: "string \<Rightarrow> jsstring" where
  "js s = map of_char s"

text \<open>
  White space and line terminators of ECMAScript: TAB, LF, VT, FF, CR, SP, NBSP, U+1680,
  U+2000 to U+200A, U+2028, U+2029, U+202F, U+205F, U+3000 and U+FEFF.
\<close>

definition isWhiteSpace :: "nat \<Rightarrow> bool" where
  "isWhiteSpace c =
     (c = 9 \<or> c = 10 \<or> c = 11 \<or> c = 12 \<or> c = 13 \<or> c = 32 \<or> c = 160 \<or> c = 5760 \<or>
      (8192 \<le> c \<and> c \<le> 8202) \<or> c = 8232 \<or> c = 8233 \<or> c = 8239 \<or> c = 8287 \<or>
      c = 12288 \<or> c = 65279)"

definition trimStart :: "jsstring \<Rightarrow> jsstring" where
  "trimStart s = dropWhile isWhiteSpace s"

definition trim :: "jsstring \<Rightarrow> jsstring" where
  "trim s = rev (dropWhile isWhiteSpace (rev (dropWhile isWhiteSpace s)))"

text \<open>
  \<^verbatim>\<open>String.prototype.toUpperCase\<close>. On text of the Basic Latin block it maps \<^verbatim>\<open>a-z\<close>
  to \<^verbatim>\<open>A-Z\<close> and leaves every other code unit. On any other text the result is given by
  the case mapping of the engine's Unicode tables, which depends on their version and can
  lengthen the string; that mapping is the parameter \<open>ucd\<close> of the model, and nothing
  is assumed of it. The examples below are over Basic Latin text, where the parameter is not
  consulted, and pass the identity for it.
\<close>

type_synonym caseMapping = "jsstring \<Rightarrow> jsstring"

definition isBasicLatin :: "nat \<Rightarrow> bool" where
  "isBasicLatin c = (c < 128)"

definition upperUnit :: "nat \<Rightarrow> nat" where
  "upperUnit c = (if 97 \<le> c \<and> c \<le> 122 then c - 32 else c)"

definition toUpperCase :: "caseMapping \<Rightarrow> jsstring \<Rightarrow> jsstring" where
  "toUpperCase ucd s = (if list_all isBasicLatin s then map upperUnit s else ucd s)"

text \<open>\<^verbatim>\<open>currencyRegex.test(s)\<close> for \<^verbatim>\<open>const currencyRegex = /^[A-Z]{3}$/\<close>.\<close>

definition isUpperAZ :: "nat \<Rightarrow> bool" where
  "isUpperAZ c = (65 \<le> c \<and> c \<le> 90)"

definition currencyRegex_test :: "jsstring \<Rightarrow> bool" where
  "currencyRegex_test s = (length s = 3 \<and> list_all isUpperAZ s)"

text \<open>The decimal digits of a non-negative integer, as a template literal prints it.\<close>

fun ToString_nat :: "nat \<Rightarrow> jsstring" where
  "ToString_nat n =
     (if n < 10 then [48 + n] else ToString_nat (n div 10) @ [48 + n mod 10])"

declare ToString_nat.simps [simp del]

subsection \<open>Number values\<close>

text \<open>
  A Number is NaN, an infinity or a finite binary64 value, kept as a sign (\<open>True\<close> for
  negative) and a real magnitude; \<open>Fin True 0\<close> is the negative zero.
\<close>

datatype number = NaN | Infinity bool | Fin bool real

definition pow2 :: "int \<Rightarrow> real" where
  "pow2 e = (if 0 \<le> e then 2 ^ nat e else 1 / 2 ^ nat (- e))"

definition pow10 :: "int \<Rightarrow> real" where
  "pow10 e = (if 0 \<le> e then 10 ^ nat e else 1 / 10 ^ nat (- e))"

text \<open>The number of binary digits of a positive integer.\<close>

function bits :: "int \<Rightarrow> int" where
  "bits n = (if n \<le> 0 then 0 else 1 + bits (n div 2))"
  by auto
termination
  by (relation "measure nat") auto

declare bits.simps [simp del]

text \<open>
  The binary exponent of a positive real, \<open>2 ^ ilog2 a \<le> a < 2 ^ (ilog2 a + 1)\<close> (lemma
  \<open>ilog2_bounds\<close> below).
\<close>

definition ilog2 :: "real \<Rightarrow> int" where
  "ilog2 a = (if 1 \<le> a then bits \<lfloor>a\<rfloor> - 1 else - bits (\<lceil>1 / a\<rceil> - 1))"

definition roundHalfEven :: "real \<Rightarrow> int" where
  "roundHalfEven x =
     (let f = \<lfloor>x\<rfloor>; r = x - of_int f
      in if r < 1 / 2 then f else if 1 / 2 < r then f + 1 else if even f then f else f + 1)"

text \<open>
  Rounding of a non-negative real to binary64, to nearest with ties to even: 53 bits of
  precision, least exponent -1022 (below it the subnormal spacing \<open>2 ^ -1074\<close>), and an
  infinity once the rounded value reaches \<open>2 ^ 1024\<close>.
\<close>

definition round64 :: "bool \<Rightarrow> real \<Rightarrow> number" where
  "round64 s a =
     (if a \<le> 0 then Fin s 0
      else let e = max (ilog2 a) (- 1022);
               u = pow2 (e - 52);
               v = of_int (roundHalfEven (a / u)) * u
           in if pow2 1024 \<le> v then Infinity s else Fin s v)"

text \<open>The operator \<^verbatim>\<open>*\<close> on two Numbers.\<close>

fun multiply :: "number \<Rightarrow> number \<Rightarrow> number" where
  "multiply NaN _ = NaN"
| "multiply _ NaN = NaN"
| "multiply (Infinity s) (Infinity t) = Infinity (s \<noteq> t)"
| "multiply (Infinity s) (Fin t b) = (if b = 0 then NaN else Infinity (s \<noteq> t))"
| "multiply (Fin s a) (Infinity t) = (if a = 0 then NaN else Infinity (s \<noteq> t))"
| "multiply (Fin s a) (Fin t b) = round64 (s \<noteq> t) (a * b)"

text \<open>\<^verbatim>\<open>isNaN(x)\<close> and \<^verbatim>\<open>x <= 0\<close> for a Number \<^verbatim>\<open>x\<close>.\<close>

definition isNaN :: "number \<Rightarrow> bool" where
  "isNaN x = (x = NaN)"

fun le_zero :: "number \<Rightarrow> bool" where
  "le_zero NaN = False"
| "le_zero (Infinity s) = s"
| "le_zero (Fin s a) = (s \<or> a \<le> 0)"

subsection \<open>Numeric literals in strings\<close>

definition isDigit :: "nat \<Rightarrow> bool" where
  "isDigit c = (48 \<le> c \<and> c \<le> 57)"

definition digitsValue :: "jsstring \<Rightarrow> int" where
  "digitsValue ds = foldl (\<lambda>acc c. 10 * acc + (int c - 48)) 0 ds"

text \<open>
  \<open>exponentPart s\<close> reads the longest \<^verbatim>\<open>ExponentPart\<close> at the start of \<open>s\<close>: \<^verbatim>\<open>e\<close> or
  \<^verbatim>\<open>E\<close>, an optional sign and at least one digit. It returns the exponent and the rest;
  without an exponent part the exponent is 0 and nothing is consumed.
\<close>

definition exponentPart :: "jsstring \<Rightarrow> int \<times> jsstring" where
  "exponentPart s =
     (case s of
        [] \<Rightarrow> (0, s)
      | c # r \<Rightarrow>
          if c = 101 \<or> c = 69 then
            (case r of
               [] \<Rightarrow> (0, s)
             | d # r' \<Rightarrow>
                 if d = 43 \<or> d = 45 then
                   (if takeWhile isDigit r' = [] then (0, s)
                    else ((if d = 45 then - 1 else 1) * digitsValue (takeWhile isDigit r'),
                          dropWhile isDigit r'))
                 else if takeWhile isDigit r = [] then (0, s)
                 else (digitsValue (takeWhile isDigit r), dropWhile isDigit r))
          else (0, s))"

text \<open>
  \<open>unsignedDecimal s\<close> reads the longest prefix of \<open>s\<close> that is a
  \<^verbatim>\<open>StrUnsignedDecimalLiteral\<close>: \<^verbatim>\<open>Infinity\<close>, digits with an optional fraction and
  exponent, or a dot followed by digits and an optional exponent. The result is \<open>None\<close>
  when no prefix is one; otherwise the value (\<open>None\<close> for \<^verbatim>\<open>Infinity\<close>, else the exact
  rational) and the rest of the string.
\<close>

definition unsignedDecimal :: "jsstring \<Rightarrow> (real option \<times> jsstring) option" where
  "unsignedDecimal s =
     (if take 8 s = js ''Infinity'' then Some (None, drop 8 s)
      else let ip = takeWhile isDigit s;
               r1 = dropWhile isDigit s;
               dot = (r1 \<noteq> [] \<and> hd r1 = 46);
               fp = (if dot then takeWhile isDigit (tl r1) else []);
               r2 = (if dot then dropWhile isDigit (tl r1) else r1)
           in if ip = [] \<and> fp = [] then None
              else let (ex, r3) = exponentPart r2
                   in Some (Some (of_int (digitsValue (ip @ fp)) * pow10 (ex - int (length fp))),
                            r3))"

text \<open>
  \<open>decimalLiteral s\<close> reads the longest prefix that is a \<^verbatim>\<open>StrDecimalLiteral\<close> (an
  optional sign and an unsigned literal) and rounds its value to a Number.
\<close>

definition numberOf :: "bool \<Rightarrow> real option \<Rightarrow> number" where
  "numberOf neg v = (case v of None \<Rightarrow> Infinity neg | Some q \<Rightarrow> round64 neg q)"

definition decimalLiteral :: "jsstring \<Rightarrow> (number \<times> jsstring) option" where
  "decimalLiteral s =
     (let neg = (s \<noteq> [] \<and> hd s = 45);
          body = (if s \<noteq> [] \<and> (hd s = 43 \<or> hd s = 45) then tl s else s)
      in case unsignedDecimal body of
           None \<Rightarrow> None
         | Some (v, r) \<Rightarrow> Some (numberOf neg v, r))"

text \<open>
  \<^verbatim>\<open>parseFloat(string)\<close>: leading white space is skipped, the longest prefix that is a
  decimal literal is converted, and the result is NaN when there is none.
\<close>

definition parseFloat :: "jsstring \<Rightarrow> number" where
  "parseFloat s =
     (case decimalLiteral (trimStart s) of None \<Rightarrow> NaN | Some (n, _) \<Rightarrow> n)"

text \<open>
  \<^verbatim>\<open>StringToNumber\<close>, the conversion the operator \<^verbatim>\<open>*\<close> applies to a string operand:
  white space is trimmed at both ends, the empty string is 0, and the whole rest has to be
  a decimal literal or a binary, octal or hexadecimal integer literal.
\<close>

definition isHexDigit :: "nat \<Rightarrow> bool" where
  "isHexDigit c = (isDigit c \<or> (65 \<le> c \<and> c \<le> 70) \<or> (97 \<le> c \<and> c \<le> 102))"

definition hexValue :: "nat \<Rightarrow> int" where
  "hexValue c = (if isDigit c then int c - 48 else if c \<le> 70 then int c - 55 else int c - 87)"

definition radixValue :: "int \<Rightarrow> jsstring \<Rightarrow> int" where
  "radixValue b ds = foldl (\<lambda>acc c. b * acc + hexValue c) 0 ds"

definition nonDecimalLiteral :: "jsstring \<Rightarrow> number" where
  "nonDecimalLiteral s =
     (case s of
        z # x # d # ds \<Rightarrow>
          if z \<noteq> 48 then NaN
          else if (x = 120 \<or> x = 88) \<and> list_all isHexDigit (d # ds)
            then round64 False (of_int (radixValue 16 (d # ds)))
          else if (x = 111 \<or> x = 79) \<and> list_all (\<lambda>c. 48 \<le> c \<and> c \<le> 55) (d # ds)
            then round64 False (of_int (radixValue 8 (d # ds)))
          else if (x = 98 \<or> x = 66) \<and> list_all (\<lambda>c. c = 48 \<or> c = 49) (d # ds)
            then round64 False (of_int (radixValue 2 (d # ds)))
          else NaN
      | _ \<Rightarrow> NaN)"

definition StringToNumber :: "jsstring \<Rightarrow> number" where
  "StringToNumber s =
     (let t = trim s
      in if t = [] then Fin False 0
         else case decimalLiteral t of
                Some (n, []) \<Rightarrow> n
              | _ \<Rightarrow> nonDecimalLiteral t)"

subsection \<open>Parsed JSON\<close>

text \<open>
  The values \<^verbatim>\<open>response.json()\<close> resolves to. An object is the list of its own
  properties; a key is looked up with \<open>map_of\<close>.
\<close>

datatype json =
    JNull
  | JBool bool
  | JNum number
  | JStr jsstring
  | JArr "json list"
  | JObj "(jsstring \<times> json) list"

text \<open>
  Truthiness, as \<^verbatim>\<open>if (rate)\<close> and the operator \<^verbatim>\<open>||\<close> test it. \<open>None\<close> stands for
  \<^verbatim>\<open>undefined\<close>.
\<close>

fun truthy :: "json option \<Rightarrow> bool" where
  "truthy None = False"
| "truthy (Some JNull) = False"
| "truthy (Some (JBool b)) = b"
| "truthy (Some (JNum NaN)) = False"
| "truthy (Some (JNum (Infinity s))) = True"
| "truthy (Some (JNum (Fin s a))) = (a \<noteq> 0)"
| "truthy (Some (JStr s)) = (s \<noteq> [])"
| "truthy (Some (JArr xs)) = True"
| "truthy (Some (JObj kvs)) = True"

text \<open>
  Optional property access \<^verbatim>\<open>x?.[k]\<close> (and \<^verbatim>\<open>x?.k\<close>): \<^verbatim>\<open>undefined\<close> on \<^verbatim>\<open>null\<close> and
  \<^verbatim>\<open>undefined\<close>, the own property on an object. The keys the handler uses (\<^verbatim>\<open>data\<close>,
  \<^verbatim>\<open>message\<close> and a code of three capital letters) are neither an index nor
  \<^verbatim>\<open>length\<close> nor the name of a prototype property, so that a string, an array, a number
  or a boolean has no such property.
\<close>

fun optProp :: "json option \<Rightarrow> jsstring \<Rightarrow> json option" where
  "optProp (Some (JObj kvs)) k = map_of kvs k"
| "optProp _ k = None"

text \<open>
  \<^verbatim>\<open>ToString\<close> of a parsed JSON value throws a \<^verbatim>\<open>TypeError\<close> in one case: an object
  with an own property \<^verbatim>\<open>toString\<close>. The property shadows \<^verbatim>\<open>Object.prototype.toString\<close>
  and, being a JSON value, is not callable, and \<^verbatim>\<open>valueOf\<close> gives back the object, so
  that no primitive is found. The \<^verbatim>\<open>join\<close> of an array converts every element that is
  not \<^verbatim>\<open>null\<close>, and throws when one of them does.
\<close>

fun toStringThrows :: "json \<Rightarrow> bool" where
  "toStringThrows (JObj kvs) = (map_of kvs (js ''toString'') \<noteq> None)"
| "toStringThrows (JArr xs) = list_ex toStringThrows xs"
| "toStringThrows _ = False"

text \<open>
  The Number read from the \<^verbatim>\<open>join\<close> of an array none of whose elements throws: the empty
  array prints as the empty string, an array of two or more elements contains a comma, and
  an array of one element prints as that element does, \<^verbatim>\<open>null\<close> as the empty string, an
  object as \<^verbatim>\<open>[object Object]\<close> and a Number as the literal that reads back as the same
  Number (the negative zero prints as \<^verbatim>\<open>0\<close>).
\<close>

fun joinToNumber :: "json list \<Rightarrow> number" where
  "joinToNumber [] = Fin False 0"
| "joinToNumber [JNull] = Fin False 0"
| "joinToNumber [JBool b] = NaN"
| "joinToNumber [JNum (Fin s a)] = (if a = 0 then Fin False 0 else Fin s a)"
| "joinToNumber [JNum n] = n"
| "joinToNumber [JStr s] = StringToNumber s"
| "joinToNumber [JObj kvs] = NaN"
| "joinToNumber [JArr xs] = joinToNumber xs"
| "joinToNumber (x # y # zs) = NaN"

text \<open>
  \<^verbatim>\<open>ToNumber\<close>, which the operator \<^verbatim>\<open>*\<close> applies to its right operand; \<open>None\<close> is the
  \<^verbatim>\<open>TypeError\<close>. An object is converted through \<^verbatim>\<open>valueOf\<close>, which gives back the
  object, and then \<^verbatim>\<open>toString\<close>: it throws with an own property \<^verbatim>\<open>toString\<close> and
  otherwise prints as \<^verbatim>\<open>[object Object]\<close>, which is no number. An array is converted
  through its \<^verbatim>\<open>join\<close>.
\<close>

fun ToNumber :: "json \<Rightarrow> number option" where
  "ToNumber JNull = Some (Fin False 0)"
| "ToNumber (JBool b) = Some (if b then Fin False 1 else Fin False 0)"
| "ToNumber (JNum n) = Some n"
| "ToNumber (JStr s) = Some (StringToNumber s)"
| "ToNumber (JObj kvs) = (if map_of kvs (js ''toString'') \<noteq> None then None else Some NaN)"
| "ToNumber (JArr xs) = (if list_ex toStringThrows xs then None else Some (joinToNumber xs))"

subsection \<open>Component state\<close>

text \<open>
  The seven \<^verbatim>\<open>useState\<close> cells of \<^verbatim>\<open>MainScreen\<close>. \<open>None\<close> is \<^verbatim>\<open>null\<close>. The error
  message is a JSON value because the handler stores the provider's \<^verbatim>\<open>message\<close> field
  as it comes.
\<close>

record state =
  baseCurrency :: jsstring
  destCurrency :: jsstring
  amount :: jsstring
  convertedAmount :: "number option"
  exchangeRate :: "json option"
  errorMessage :: json
  isLoading :: bool

definition initialState :: state where
  "initialState =
     \<lparr>baseCurrency = js ''CAD'', destCurrency = js ''USD'', amount = js ''1'',
      convertedAmount = None, exchangeRate = None, errorMessage = JStr [],
      isLoading = False\<rparr>"

text \<open>The \<^verbatim>\<open>onChangeText\<close> handlers of the three text fields (lines 127, 135 and 143).\<close>

definition onChangeBaseCurrency :: "caseMapping \<Rightarrow> jsstring \<Rightarrow> state \<Rightarrow> state" where
  "onChangeBaseCurrency ucd text s = s\<lparr>baseCurrency := toUpperCase ucd text\<rparr>"

definition onChangeDestCurrency :: "caseMapping \<Rightarrow> jsstring \<Rightarrow> state \<Rightarrow> state" where
  "onChangeDestCurrency ucd text s = s\<lparr>destCurrency := toUpperCase ucd text\<rparr>"

definition onChangeAmount :: "jsstring \<Rightarrow> state \<Rightarrow> state" where
  "onChangeAmount text s = s\<lparr>amount := text\<rparr>"

subsection \<open>The messages\<close>

definition InvalidBaseCurrency :: json where
  "InvalidBaseCurrency = JStr (js ''Base currency must be a 3-letter uppercase code (e.g. CAD).'')"

definition InvalidDestCurrency :: json where
  "InvalidDestCurrency =
     JStr (js ''Destination currency must be a 3-letter uppercase code (e.g. USD).'')"

definition InvalidAmount :: json where
  "InvalidAmount = JStr (js ''Amount must be a positive number.'')"

definition InvalidApiKey :: json where
  "InvalidApiKey = JStr (js ''Invalid API Key. Please check the key in App.js.'')"

definition RequestFailed :: "nat \<Rightarrow> json" where
  "RequestFailed st = JStr (js ''Request failed with status '' @ ToString_nat st @ js ''.'')"

definition UnknownCurrencyOrRate :: json where
  "UnknownCurrencyOrRate = JStr (js ''Invalid currency code or missing exchange rate.'')"

definition NetworkError :: json where
  "NetworkError = JStr (js ''A network error occurred. Please check your connection.'')"

subsection \<open>validateInput\<close>

text \<open>
  \<^verbatim>\<open>validateInput\<close> (lines 52 to 72) returns a boolean and, on failure, has set the error
  message.
\<close>

definition validateInput :: "state \<Rightarrow> bool \<times> state" where
  "validateInput s =
     (if \<not> currencyRegex_test (trim (baseCurrency s))
        then (False, s\<lparr>errorMessage := InvalidBaseCurrency\<rparr>)
      else if \<not> currencyRegex_test (trim (destCurrency s))
        then (False, s\<lparr>errorMessage := InvalidDestCurrency\<rparr>)
      else let numericAmount = parseFloat (amount s)
           in if isNaN numericAmount \<or> le_zero numericAmount
                then (False, s\<lparr>errorMessage := InvalidAmount\<rparr>)
              else (True, s))"

subsection \<open>handleConvert\<close>

text \<open>
  What \<^verbatim>\<open>await fetch(url)\<close> gives: a rejection, or a response with its status and the
  outcome of \<^verbatim>\<open>response.json()\<close> (\<open>None\<close> when that promise rejects).
\<close>

datatype fetch_result = Rejected | Response nat "json option"

definition response_ok :: "nat \<Rightarrow> bool" where
  "response_ok st = (200 \<le> st \<and> st \<le> 299)"

definition apiKey :: jsstring where
  "apiKey = js ''fca_live_oMoG8VygncoNd6rUsq3mMtjDYCzaSzjKtpjf9EXN''"

definition url :: "jsstring \<Rightarrow> jsstring \<Rightarrow> jsstring" where
  "url base dest =
     js ''https://api.freecurrencyapi.com/v1/latest?apikey='' @ apiKey @
     js ''&base_currency='' @ base @ js ''&currencies='' @ dest"

type_synonym alert = "jsstring \<times> jsstring"

text \<open>The \<^verbatim>\<open>catch\<close> block (lines 111 to 113).\<close>

definition catchBlock :: "state \<Rightarrow> state \<times> alert list" where
  "catchBlock s =
     (s\<lparr>errorMessage := NetworkError\<rparr>,
      [(js ''Network Error'', js ''Could not connect to the currency service.'')])"

text \<open>The branch \<^verbatim>\<open>!response.ok\<close> (lines 95 to 100).\<close>

definition failureBranch :: "nat \<Rightarrow> json option \<Rightarrow> state \<Rightarrow> state \<times> alert list" where
  "failureBranch st body s =
     (if st = 401 then (s\<lparr>errorMessage := InvalidApiKey\<rparr>, [])
      else let errorData = (case body of None \<Rightarrow> JNull | Some j \<Rightarrow> j)
           in case optProp (Some errorData) (js ''message'') of
                None \<Rightarrow> (s\<lparr>errorMessage := RequestFailed st\<rparr>, [])
              | Some m \<Rightarrow>
                  (s\<lparr>errorMessage := (if truthy (Some m) then m else RequestFailed st)\<rparr>, []))"

text \<open>
  The branch of a successful response (lines 102 to 109). A rejection of
  \<^verbatim>\<open>response.json()\<close> and the \<^verbatim>\<open>TypeError\<close> of \<^verbatim>\<open>json.data\<close> on \<^verbatim>\<open>null\<close> are thrown
  into the \<^verbatim>\<open>catch\<close> block. So is the \<^verbatim>\<open>TypeError\<close> of the multiplication at line 106,
  which is thrown after \<^verbatim>\<open>setExchangeRate(rate)\<close> at line 105 has run.
\<close>

definition successBranch ::
  "number \<Rightarrow> jsstring \<Rightarrow> json option \<Rightarrow> state \<Rightarrow> state \<times> alert list" where
  "successBranch numericAmount dest body s =
     (case body of
        None \<Rightarrow> catchBlock s
      | Some JNull \<Rightarrow> catchBlock s
      | Some json \<Rightarrow>
          (case optProp (optProp (Some json) (js ''data'')) dest of
             None \<Rightarrow> (s\<lparr>errorMessage := UnknownCurrencyOrRate\<rparr>, [])
           | Some rate \<Rightarrow>
               if truthy (Some rate)
                 then (case ToNumber rate of
                         None \<Rightarrow> catchBlock (s\<lparr>exchangeRate := Some rate\<rparr>)
                       | Some r \<Rightarrow>
                           (s\<lparr>exchangeRate := Some rate,
                              convertedAmount := Some (multiply numericAmount r)\<rparr>, []))
               else (s\<lparr>errorMessage := UnknownCurrencyOrRate\<rparr>, [])))"

text \<open>
  \<^verbatim>\<open>handleConvert\<close> (lines 74 to 117), run to its end against a provider \<open>fetch\<close>,
  which maps the requested URL to what the request gives. The result is the state once
  every update has been applied, and the alerts shown.
\<close>

definition handleConvert ::
  "caseMapping \<Rightarrow> (jsstring \<Rightarrow> fetch_result) \<Rightarrow> state \<Rightarrow> state \<times> alert list" where
  "handleConvert ucd fetch s0 =
     (let s1 = s0\<lparr>errorMessage := JStr [], convertedAmount := None, exchangeRate := None\<rparr>;
          (valid, s2) = validateInput s1
      in if \<not> valid then (s2, [])
         else let numericAmount = parseFloat (amount s2);
                  base = toUpperCase ucd (trim (baseCurrency s2));
                  dest = toUpperCase ucd (trim (destCurrency s2));
                  s3 = s2\<lparr>isLoading := True\<rparr>;
                  (s4, alerts) =
                    (case fetch (url base dest) of
                       Rejected \<Rightarrow> catchBlock s3
                     | Response st body \<Rightarrow>
                         if \<not> response_ok st then failureBranch st body s3
                         else successBranch numericAmount dest body s3)
              in (s4\<lparr>isLoading := False\<rparr>, alerts))"

text \<open>The URL the handler requests (lines 82 to 88) and the key it looks up (line 83).\<close>

definition requestUrl :: "caseMapping \<Rightarrow> state \<Rightarrow> jsstring" where
  "requestUrl ucd s =
     url (toUpperCase ucd (trim (baseCurrency s))) (toUpperCase ucd (trim (destCurrency s)))"

definition requestedDest :: "caseMapping \<Rightarrow> state \<Rightarrow> jsstring" where
  "requestedDest ucd s = toUpperCase ucd (trim (destCurrency s))"

section \<open>Basic facts\<close>

lemmas literal_eval =
  js_def trimStart_def trim_def isWhiteSpace_def decimalLiteral_def unsignedDecimal_def
  isDigit_def exponentPart_def digitsValue_def numberOf_def round64_def ilog2_def pow2_def
  pow10_def roundHalfEven_def parseFloat_def Let_def bits.simps

lemmas message_defs =
  InvalidBaseCurrency_def InvalidDestCurrency_def InvalidAmount_def InvalidApiKey_def
  UnknownCurrencyOrRate_def NetworkError_def

lemma messages_distinct:
  "InvalidBaseCurrency \<noteq> InvalidDestCurrency"
  "InvalidBaseCurrency \<noteq> InvalidAmount"
  "InvalidDestCurrency \<noteq> InvalidAmount"
  "NetworkError \<noteq> UnknownCurrencyOrRate"
  by (simp_all add: message_defs js_def)

lemma messages_nonempty:
  "InvalidBaseCurrency \<noteq> JStr []"
  "InvalidDestCurrency \<noteq> JStr []"
  "InvalidAmount \<noteq> JStr []"
  "InvalidApiKey \<noteq> JStr []"
  "UnknownCurrencyOrRate \<noteq> JStr []"
  "NetworkError \<noteq> JStr []"
  "RequestFailed st \<noteq> JStr []"
  by (simp_all add: message_defs RequestFailed_def js_def)

lemma truthy_nonempty: "truthy (Some m) \<Longrightarrow> m \<noteq> JStr []"
  by auto

text \<open>Upper-casing changes nothing in a code that matches the pattern.\<close>

lemma toUpperCase_basicLatin:
  "list_all isBasicLatin s \<Longrightarrow> toUpperCase ucd s = map upperUnit s"
  by (simp add: toUpperCase_def)

lemma toUpperCase_currency: "currencyRegex_test s \<Longrightarrow> toUpperCase ucd s = s"
proof -
  assume r: "currencyRegex_test s"
  then have "list_all isBasicLatin s"
    by (auto simp: currencyRegex_test_def list_all_iff isUpperAZ_def isBasicLatin_def)
  then have "toUpperCase ucd s = map upperUnit s"
    by (rule toUpperCase_basicLatin)
  also have "\<dots> = s"
    using r unfolding currencyRegex_test_def
    by (intro map_idI) (auto simp: list_all_iff isUpperAZ_def upperUnit_def)
  finally show ?thesis .
qed

lemma validateInput_passes:
  "fst (validateInput s) \<longleftrightarrow>
     currencyRegex_test (trim (baseCurrency s)) \<and> currencyRegex_test (trim (destCurrency s)) \<and>
     \<not> isNaN (parseFloat (amount s)) \<and> \<not> le_zero (parseFloat (amount s))"
  by (simp add: validateInput_def Let_def)

lemma validateInput_True: "fst (validateInput s) \<Longrightarrow> validateInput s = (True, s)"
  by (auto simp: validateInput_def Let_def split: if_splits)

text \<open>The three cells the handler clears first are not read by the validation.\<close>

lemma validateInput_cleared:
  "fst (validateInput (s\<lparr>errorMessage := e, convertedAmount := c, exchangeRate := x\<rparr>)) =
   fst (validateInput s)"
  by (simp add: validateInput_def Let_def)

lemma handleConvert_invalid:
  assumes "\<not> fst (validateInput s)"
  shows "handleConvert ucd fetch s =
    (snd (validateInput (s\<lparr>errorMessage := JStr [], convertedAmount := None, exchangeRate := None\<rparr>)), [])"
  using assms validateInput_cleared [where s = s and e = "JStr []" and c = None and x = None]
  by (simp add: handleConvert_def Let_def split_beta)

lemma handleConvert_valid:
  assumes "fst (validateInput s)"
  shows "handleConvert ucd fetch s =
    (let s3 = s\<lparr>errorMessage := JStr [], convertedAmount := None, exchangeRate := None,
                 isLoading := True\<rparr>;
         r = (case fetch (requestUrl ucd s) of
                Rejected \<Rightarrow> catchBlock s3
              | Response st body \<Rightarrow>
                  if \<not> response_ok st then failureBranch st body s3
                  else successBranch (parseFloat (amount s)) (requestedDest ucd s) body s3)
     in (fst r\<lparr>isLoading := False\<rparr>, snd r))"
proof -
  let ?s1 = "s\<lparr>errorMessage := JStr [], convertedAmount := None, exchangeRate := None\<rparr>"
  have "fst (validateInput ?s1)"
    using assms validateInput_cleared [where s = s and e = "JStr []" and c = None and x = None]
    by simp
  then have "validateInput ?s1 = (True, ?s1)"
    by (rule validateInput_True)
  then show ?thesis
    unfolding handleConvert_def requestUrl_def requestedDest_def
    by (simp add: Let_def split_beta)
qed

section \<open>The rounding model\<close>

lemma bits_pos: "1 \<le> n \<Longrightarrow> 1 \<le> bits n"
proof -
  assume "1 \<le> n"
  moreover have "0 \<le> bits m" for m
    by (induction m rule: bits.induct) (subst bits.simps, simp)
  ultimately show ?thesis
    by (subst bits.simps) (simp add: add_increasing2)
qed

lemma bits_lower: "1 \<le> n \<Longrightarrow> 2 ^ nat (bits n - 1) \<le> n"
proof (induction n rule: bits.induct)
  case (1 n)
  show ?case
  proof (cases "n = 1")
    case True
    then show ?thesis
      by (simp add: bits.simps [of 1] bits.simps [of 0])
  next
    case False
    with "1.prems" have h: "1 \<le> n div 2" "\<not> n \<le> 0"
      by simp_all
    from "1.IH" [OF h(2) h(1)] have ih: "2 ^ nat (bits (n div 2) - 1) \<le> n div 2" .
    have b: "bits n = 1 + bits (n div 2)"
      using h(2) by (subst bits.simps) simp
    have "nat (bits n - 1) = Suc (nat (bits (n div 2) - 1))"
      using bits_pos [OF h(1)] b by simp
    then have "(2::int) ^ nat (bits n - 1) = 2 * 2 ^ nat (bits (n div 2) - 1)"
      by simp
    also have "\<dots> \<le> 2 * (n div 2)"
      using ih by simp
    also have "\<dots> \<le> n"
      by simp
    finally show ?thesis .
  qed
qed

lemma roundHalfEven_ge: "1 \<le> x \<Longrightarrow> 1 \<le> roundHalfEven x"
proof -
  assume "1 \<le> x"
  then have "1 \<le> \<lfloor>x\<rfloor>"
    by simp
  then show ?thesis
    by (simp add: roundHalfEven_def Let_def)
qed

lemma pow2_pos: "0 < pow2 e"
  by (simp add: pow2_def)

lemma pow2_powi: "pow2 e = 2 powi e"
  by (simp add: pow2_def power_int_def power_one_over [symmetric] inverse_eq_divide)

lemma pow2_mono: "a \<le> b \<Longrightarrow> pow2 a \<le> pow2 b"
  by (simp add: pow2_powi power_int_increasing)

text \<open>A positive integer rounds to a positive Number.\<close>

lemma round64_int_positive:
  assumes "1 \<le> n"
  shows "\<not> isNaN (round64 False (of_int n)) \<and> \<not> le_zero (round64 False (of_int n))"
proof -
  let ?a = "of_int n :: real"
  let ?e = "bits n - 1"
  have e0: "0 \<le> ?e"
    using bits_pos [OF assms] by simp
  have il: "ilog2 ?a = ?e"
    using assms by (simp add: ilog2_def)
  have "(2::real) ^ nat ?e \<le> ?a"
    using bits_lower [OF assms] by (metis of_int_le_iff of_int_numeral of_int_power)
  then have le: "pow2 ?e \<le> ?a"
    using e0 by (simp add: pow2_def)
  have "pow2 (?e - 52) \<le> pow2 ?e"
    by (rule pow2_mono) simp
  with le have u: "pow2 (?e - 52) \<le> ?a"
    by simp
  have "1 \<le> ?a / pow2 (?e - 52)"
    using u pow2_pos [of "?e - 52"] by (simp add: le_divide_eq)
  then have "1 \<le> roundHalfEven (?a / pow2 (?e - 52))"
    by (rule roundHalfEven_ge)
  then have "0 < real_of_int (roundHalfEven (?a / pow2 (?e - 52))) * pow2 (?e - 52)"
    using pow2_pos [of "?e - 52"] by simp
  moreover have "max ?e (- 1022) = ?e"
    using e0 by simp
  ultimately show ?thesis
    using assms by (simp add: round64_def il Let_def isNaN_def)
qed

lemma bits_upper: "0 \<le> n \<Longrightarrow> n < 2 ^ nat (bits n)"
proof (induction n rule: bits.induct)
  case (1 n)
  show ?case
  proof (cases "n = 0")
    case True
    then show ?thesis
      by (simp add: bits.simps [of 0])
  next
    case False
    with "1.prems" have h: "\<not> n \<le> 0" "0 \<le> n div 2"
      by simp_all
    from "1.IH" [OF h] have ih: "n div 2 < 2 ^ nat (bits (n div 2))" .
    have b: "bits n = 1 + bits (n div 2)"
      using h(1) by (subst bits.simps) simp
    have "0 \<le> bits (n div 2)"
    proof (cases "n div 2 = 0")
      case True
      then show ?thesis by (simp add: bits.simps [of 0])
    next
      case False
      with h(2) have "1 \<le> n div 2" by simp
      from bits_pos [OF this] show ?thesis by simp
    qed
    then have "nat (bits n) = Suc (nat (bits (n div 2)))"
      using b by simp
    then have "(2::int) ^ nat (bits n) = 2 * 2 ^ nat (bits (n div 2))"
      by simp
    moreover have "n < 2 * (n div 2 + 1)"
      by presburger
    ultimately show ?thesis
      using ih by linarith
  qed
qed

text \<open>\<open>ilog2\<close> is the binary exponent: \<open>2 ^ ilog2 a \<le> a < 2 ^ (ilog2 a + 1)\<close>.\<close>

lemma ilog2_bounds:
  assumes "0 < a"
  shows "pow2 (ilog2 a) \<le> a \<and> a < pow2 (ilog2 a + 1)"
proof (cases "1 \<le> a")
  case True
  let ?n = "\<lfloor>a\<rfloor>"
  have n: "1 \<le> ?n"
    using True by simp
  have e: "ilog2 a = bits ?n - 1" "0 \<le> bits ?n - 1"
    using True bits_pos [OF n] by (simp_all add: ilog2_def)
  have "real_of_int (2 ^ nat (bits ?n - 1)) \<le> real_of_int ?n"
    using bits_lower [OF n] by (simp only: of_int_le_iff)
  also have "\<dots> \<le> a"
    by simp
  finally have lo: "pow2 (ilog2 a) \<le> a"
    using e by (simp add: pow2_def)
  have "?n + 1 \<le> 2 ^ nat (bits ?n)"
    using bits_upper [of ?n] n by simp
  then have "real_of_int (?n + 1) \<le> real_of_int (2 ^ nat (bits ?n))"
    by (simp only: of_int_le_iff)
  with floor_correct [of a] have "a < real_of_int (2 ^ nat (bits ?n))"
    by linarith
  then have "a < 2 ^ nat (bits ?n)"
    by simp
  moreover have "pow2 (ilog2 a + 1) = 2 ^ nat (bits ?n)"
    using e bits_pos [OF n] by (simp add: pow2_def)
  ultimately show ?thesis
    using lo by simp
next
  case False
  let ?c = "\<lceil>1 / a\<rceil>"
  let ?k = "bits (?c - 1)"
  have inv: "1 < 1 / a"
    using assms False by simp
  then have c: "2 \<le> ?c"
    by (simp add: le_ceiling_iff) 
  then have m: "1 \<le> ?c - 1"
    by simp
  have k: "1 \<le> ?k"
    by (rule bits_pos [OF m])
  have e: "ilog2 a = - ?k"
    using False by (simp add: ilog2_def)
  have "?c \<le> 2 ^ nat ?k"
    using bits_upper [of "?c - 1"] m by linarith
  then have "real_of_int ?c \<le> real_of_int (2 ^ nat ?k)"
    by (simp only: of_int_le_iff)
  with ceiling_correct [of "1 / a"] have "1 / a \<le> real_of_int (2 ^ nat ?k)"
    by linarith
  then have "1 / a \<le> 2 ^ nat ?k"
    by simp
  then have "1 / 2 ^ nat ?k \<le> a"
    using assms by (simp add: field_simps)
  then have lo: "pow2 (ilog2 a) \<le> a"
    using e k by (simp add: pow2_def)
  have "real_of_int (2 ^ nat (?k - 1)) \<le> real_of_int (?c - 1)"
    using bits_lower [OF m] by (simp only: of_int_le_iff)
  with ceiling_correct [of "1 / a"] have "real_of_int (2 ^ nat (?k - 1)) < 1 / a"
    by simp
  then have "2 ^ nat (?k - 1) < 1 / a"
    by simp
  then have up: "a < 1 / 2 ^ nat (?k - 1)"
    using assms by (simp add: field_simps)
  have "pow2 (ilog2 a + 1) = 1 / 2 ^ nat (?k - 1)"
  proof (cases "?k = 1")
    case True
    then show ?thesis by (simp add: e pow2_def)
  next
    case False
    with k have "\<not> 0 \<le> - ?k + 1" "nat (- (- ?k + 1)) = nat (?k - 1)"
      by simp_all
    then show ?thesis
      by (simp add: e pow2_def)
  qed
  with lo up show ?thesis
    by simp
qed

section \<open>Conversion of a successful response\<close>

text \<open>
  C1. For an input that passes the validation and a response with a success status whose
  \<^verbatim>\<open>data\<close> object maps the requested destination currency to a truthy Number, the
  handler stores that rate and, as converted amount, the parsed amount multiplied by it,
  and sets no error message. For CAD, USD, the amount \<^verbatim>\<open>10\<close> and the rate 0.5 the
  converted amount is 5.
\<close>

theorem convert_success:
  assumes "fst (validateInput s)"
    and "fetch (requestUrl ucd s) = Response st (Some (JObj body))"
    and "response_ok st"
    and "map_of body (js ''data'') = Some (JObj data)"
    and "map_of data (requestedDest ucd s) = Some (JNum rate)"
    and "truthy (Some (JNum rate))"
  shows "handleConvert ucd fetch s =
    (s\<lparr>errorMessage := JStr [],
       convertedAmount := Some (multiply (parseFloat (amount s)) rate),
       exchangeRate := Some (JNum rate), isLoading := False\<rparr>, [])"
  using assms by (simp add: handleConvert_valid successBranch_def)

theorem convert_success_witness:
  "handleConvert (\<lambda>t. t)
     (\<lambda>u. Response 200 (Some (JObj [(js ''data'', JObj [(js ''USD'', JNum (Fin False (1 / 2)))])])))
     \<lparr>baseCurrency = js ''CAD'', destCurrency = js ''USD'', amount = js ''10'',
      convertedAmount = None, exchangeRate = None, errorMessage = JStr [], isLoading = False\<rparr> =
   (\<lparr>baseCurrency = js ''CAD'', destCurrency = js ''USD'', amount = js ''10'',
     convertedAmount = Some (Fin False 5), exchangeRate = Some (JNum (Fin False (1 / 2))),
     errorMessage = JStr [], isLoading = False\<rparr>, [])"
proof -
  let ?s = "\<lparr>baseCurrency = js ''CAD'', destCurrency = js ''USD'', amount = js ''10'',
      convertedAmount = None, exchangeRate = None, errorMessage = JStr [], isLoading = False\<rparr>"
  let ?data = "[(js ''USD'', JNum (Fin False (1 / 2)))]"
  let ?body = "[(js ''data'', JObj ?data)]"
  have amt: "parseFloat (js ''10'') = Fin False 10"
    by (simp add: literal_eval)
  have v: "fst (validateInput ?s)"
    by (simp add: validateInput_passes amt isNaN_def)
       (simp add: js_def trim_def isWhiteSpace_def currencyRegex_test_def isUpperAZ_def)
  have d: "map_of ?data (requestedDest (\<lambda>t. t) ?s) = Some (JNum (Fin False (1 / 2)))"
    by (simp add: requestedDest_def js_def trim_def isWhiteSpace_def toUpperCase_def isBasicLatin_def upperUnit_def)
  have m: "multiply (Fin False 10) (Fin False (1 / 2)) = Fin False 5"
    by (simp add: literal_eval)
  show ?thesis
    using convert_success [where s = ?s and ucd = "\<lambda>t. t"
        and fetch = "\<lambda>u. Response 200 (Some (JObj ?body))" and st = 200 and body = ?body
        and data = ?data and rate = "Fin False (1 / 2)", OF v _ _ _ d]
    by (simp add: response_ok_def amt m del: multiply.simps)
qed

section \<open>Validation\<close>

lemma errorMessage_update_eq:
  "s\<lparr>errorMessage := a\<rparr> = s\<lparr>errorMessage := b\<rparr> \<longleftrightarrow> a = b"
  by (auto dest: arg_cong [where f = errorMessage])

lemma errorMessage_update_id:
  "s = s\<lparr>errorMessage := b\<rparr> \<longleftrightarrow> errorMessage s = b"
  by (auto dest: arg_cong [where f = errorMessage])

lemma validateInput_base:
  "validateInput s = (False, s\<lparr>errorMessage := InvalidBaseCurrency\<rparr>) \<longleftrightarrow>
     \<not> currencyRegex_test (trim (baseCurrency s))"
  using messages_distinct
  by (auto simp: validateInput_def Let_def errorMessage_update_eq)

lemma validateInput_dest:
  "validateInput s = (False, s\<lparr>errorMessage := InvalidDestCurrency\<rparr>) \<longleftrightarrow>
     currencyRegex_test (trim (baseCurrency s)) \<and> \<not> currencyRegex_test (trim (destCurrency s))"
  using messages_distinct
  by (auto simp: validateInput_def Let_def errorMessage_update_eq)

lemma validateInput_amount:
  "validateInput s = (False, s\<lparr>errorMessage := InvalidAmount\<rparr>) \<longleftrightarrow>
     currencyRegex_test (trim (baseCurrency s)) \<and> currencyRegex_test (trim (destCurrency s)) \<and>
     (isNaN (parseFloat (amount s)) \<or> le_zero (parseFloat (amount s)))"
  using messages_distinct
  by (auto simp: validateInput_def Let_def errorMessage_update_eq)

lemma validateInput_success:
  "validateInput s = (True, s) \<longleftrightarrow> fst (validateInput s)"
  by (auto simp: validateInput_def Let_def)

lemma positive_number:
  "\<not> isNaN p \<and> \<not> le_zero p \<longleftrightarrow> p = Infinity False \<or> (\<exists>a. 0 < a \<and> p = Fin False a)"
  by (cases p) (auto simp: isNaN_def)

text \<open>
  On text of the Basic Latin block, trimming and upper-casing commute, and upper-casing
  twice is upper-casing once.
\<close>

lemma isWhiteSpace_upperUnit: "isWhiteSpace (upperUnit c) = isWhiteSpace c"
  by (auto simp: upperUnit_def isWhiteSpace_def)

lemma trim_map_upperUnit: "trim (map upperUnit s) = map upperUnit (trim s)"
proof -
  have w: "isWhiteSpace \<circ> upperUnit = isWhiteSpace"
    by (rule ext) (simp add: isWhiteSpace_upperUnit)
  have d: "dropWhile isWhiteSpace (map upperUnit xs) = map upperUnit (dropWhile isWhiteSpace xs)"
    for xs
    by (simp add: dropWhile_map w)
  have "trim (map upperUnit s) =
      rev (dropWhile isWhiteSpace (map upperUnit (rev (dropWhile isWhiteSpace s))))"
    by (simp add: trim_def d rev_map)
  also have "\<dots> = map upperUnit (trim s)"
    by (simp only: d rev_map trim_def)
  finally show ?thesis .
qed

lemma basicLatin_trim: "list_all isBasicLatin s \<Longrightarrow> list_all isBasicLatin (trim s)"
  unfolding trim_def list_all_iff
  by (metis set_dropWhileD set_rev)

lemma basicLatin_upperUnit: "list_all isBasicLatin s \<Longrightarrow> list_all isBasicLatin (map upperUnit s)"
  by (auto simp: list_all_iff isBasicLatin_def upperUnit_def)

lemma upperUnit_idem: "upperUnit (upperUnit c) = upperUnit c"
  by (auto simp: upperUnit_def)

lemma basicLatin_trim_toUpperCase:
  assumes "list_all isBasicLatin typed"
  shows "trim (toUpperCase ucd typed) = toUpperCase ucd (trim typed)"
    and "toUpperCase ucd (trim (toUpperCase ucd typed)) = trim (toUpperCase ucd typed)"
proof -
  have t: "toUpperCase ucd typed = map upperUnit typed"
    using assms by (rule toUpperCase_basicLatin)
  have u: "toUpperCase ucd (trim typed) = map upperUnit (trim typed)"
    using basicLatin_trim [OF assms] by (rule toUpperCase_basicLatin)
  show c: "trim (toUpperCase ucd typed) = toUpperCase ucd (trim typed)"
    by (simp add: t u trim_map_upperUnit)
  have "list_all isBasicLatin (map upperUnit (trim typed))"
    using basicLatin_trim [OF assms] by (rule basicLatin_upperUnit)
  then have "toUpperCase ucd (map upperUnit (trim typed)) = map upperUnit (map upperUnit (trim typed))"
    by (rule toUpperCase_basicLatin)
  then show "toUpperCase ucd (trim (toUpperCase ucd typed)) = trim (toUpperCase ucd typed)"
    by (simp add: c u upperUnit_idem)
qed

text \<open>
  C2. The base and destination cells only ever hold the initial \<^verbatim>\<open>CAD\<close> and \<^verbatim>\<open>USD\<close> or
  what a change handler stored, which is the typed text upper-cased (lines 127 and 135); the
  validation trims the cell and matches it. So the code that is matched is the typed code
  upper-cased and trimmed: the validation fails with the base message exactly when that
  does not match the pattern, and it never fails with the destination message when the
  destination code, upper-cased and trimmed, matches. On Basic Latin text the order of
  trimming and upper-casing is immaterial, and upper-casing the trimmed cell again changes
  nothing. A typed \<^verbatim>\<open>cad\<close> passes the currency check.
\<close>

theorem typed_codes_upper_cased:
  "(validateInput (onChangeBaseCurrency ucd typed s) =
      (False, onChangeBaseCurrency ucd typed s\<lparr>errorMessage := InvalidBaseCurrency\<rparr>) \<longleftrightarrow>
    \<not> currencyRegex_test (trim (toUpperCase ucd typed))) \<and>
   (currencyRegex_test (trim (toUpperCase ucd typed)) \<longrightarrow>
      validateInput (onChangeDestCurrency ucd typed s) \<noteq>
        (False, onChangeDestCurrency ucd typed s\<lparr>errorMessage := InvalidDestCurrency\<rparr>)) \<and>
   (list_all isBasicLatin typed \<longrightarrow>
      trim (toUpperCase ucd typed) = toUpperCase ucd (trim typed) \<and>
      toUpperCase ucd (trim (toUpperCase ucd typed)) = trim (toUpperCase ucd typed))"
  using basicLatin_trim_toUpperCase [of typed ucd]
  by (simp add: validateInput_base validateInput_dest onChangeBaseCurrency_def
      onChangeDestCurrency_def)

theorem typed_codes_upper_cased_witness:
  "validateInput (onChangeBaseCurrency (\<lambda>t. t) (js ''cad'') initialState) \<noteq>
     (False, onChangeBaseCurrency (\<lambda>t. t) (js ''cad'') initialState
        \<lparr>errorMessage := InvalidBaseCurrency\<rparr>) \<and>
   validateInput (onChangeDestCurrency (\<lambda>t. t) (js '' usd '') initialState) \<noteq>
     (False, onChangeDestCurrency (\<lambda>t. t) (js '' usd '') initialState
        \<lparr>errorMessage := InvalidDestCurrency\<rparr>) \<and>
   validateInput (onChangeBaseCurrency (\<lambda>t. t) (js ''ca$'') initialState) =
     (False, onChangeBaseCurrency (\<lambda>t. t) (js ''ca$'') initialState
        \<lparr>errorMessage := InvalidBaseCurrency\<rparr>) \<and>
   trim (toUpperCase (\<lambda>t. t) (js '' usd '')) = toUpperCase (\<lambda>t. t) (trim (js '' usd ''))"
proof -
  have a: "currencyRegex_test (trim (toUpperCase (\<lambda>t. t) (js ''cad'')))"
    and b: "currencyRegex_test (trim (toUpperCase (\<lambda>t. t) (js '' usd '')))"
    and c: "\<not> currencyRegex_test (trim (toUpperCase (\<lambda>t. t) (js ''ca$'')))"
    and l: "list_all isBasicLatin (js '' usd '')"
    by (simp_all add: js_def trim_def isWhiteSpace_def toUpperCase_def isBasicLatin_def
        upperUnit_def currencyRegex_test_def isUpperAZ_def)
  show ?thesis
    using typed_codes_upper_cased [where ucd = "\<lambda>t. t" and typed = "js ''cad''" and s = initialState]
      typed_codes_upper_cased [where ucd = "\<lambda>t. t" and typed = "js '' usd ''" and s = initialState]
      typed_codes_upper_cased [where ucd = "\<lambda>t. t" and typed = "js ''ca$''" and s = initialState]
    by (simp add: a b c l)
qed

text \<open>
  C3. The checks run in the order base code, destination code, amount, and the first one
  that fails is the one reported: a base code that fails gives the base message whatever
  the destination code and the amount are (so also when both codes are invalid, after
  trimming and a fortiori after trimming and upper-casing); a destination code that fails
  after a base code that passed gives the destination message whatever the amount is; the
  amount is judged only when both codes passed; and the three messages differ, so that
  one failure is reported and never several.
\<close>

theorem validate_order:
  "(\<not> currencyRegex_test (trim (baseCurrency s)) \<longrightarrow>
      validateInput s = (False, s\<lparr>errorMessage := InvalidBaseCurrency\<rparr>)) \<and>
   (\<not> currencyRegex_test (toUpperCase ucd (trim (baseCurrency s))) \<longrightarrow>
      validateInput s = (False, s\<lparr>errorMessage := InvalidBaseCurrency\<rparr>)) \<and>
   (currencyRegex_test (trim (baseCurrency s)) \<and> \<not> currencyRegex_test (trim (destCurrency s)) \<longrightarrow>
      validateInput s = (False, s\<lparr>errorMessage := InvalidDestCurrency\<rparr>)) \<and>
   (currencyRegex_test (trim (baseCurrency s)) \<and> currencyRegex_test (trim (destCurrency s)) \<and>
    (isNaN (parseFloat (amount s)) \<or> le_zero (parseFloat (amount s))) \<longrightarrow>
      validateInput s = (False, s\<lparr>errorMessage := InvalidAmount\<rparr>)) \<and>
   (currencyRegex_test (trim (baseCurrency s)) \<and> currencyRegex_test (trim (destCurrency s)) \<and>
    \<not> isNaN (parseFloat (amount s)) \<and> \<not> le_zero (parseFloat (amount s)) \<longrightarrow>
      validateInput s = (True, s)) \<and>
   InvalidBaseCurrency \<noteq> InvalidDestCurrency \<and> InvalidBaseCurrency \<noteq> InvalidAmount \<and>
   InvalidDestCurrency \<noteq> InvalidAmount"
proof -
  have "currencyRegex_test (trim (baseCurrency s)) \<Longrightarrow>
      currencyRegex_test (toUpperCase ucd (trim (baseCurrency s)))"
    by (simp add: toUpperCase_currency)
  then show ?thesis
    using messages_distinct
    by (auto simp: validateInput_base validateInput_dest validateInput_amount
        validateInput_success validateInput_passes)
qed

theorem validate_order_witness:
  "validateInput (initialState\<lparr>baseCurrency := js ''C4D'', destCurrency := js ''dollars'',
      amount := js ''-1''\<rparr>) =
     (False, initialState\<lparr>baseCurrency := js ''C4D'', destCurrency := js ''dollars'',
        amount := js ''-1'', errorMessage := InvalidBaseCurrency\<rparr>) \<and>
   validateInput (initialState\<lparr>destCurrency := js ''usd'', amount := js ''abc''\<rparr>) =
     (False, initialState\<lparr>destCurrency := js ''usd'', amount := js ''abc'',
        errorMessage := InvalidDestCurrency\<rparr>) \<and>
   validateInput (initialState\<lparr>amount := js ''0''\<rparr>) =
     (False, initialState\<lparr>amount := js ''0'', errorMessage := InvalidAmount\<rparr>) \<and>
   validateInput initialState = (True, initialState)"
proof -
  let ?s1 = "initialState\<lparr>baseCurrency := js ''C4D'', destCurrency := js ''dollars'',
      amount := js ''-1''\<rparr>"
  let ?s2 = "initialState\<lparr>destCurrency := js ''usd'', amount := js ''abc''\<rparr>"
  let ?s3 = "initialState\<lparr>amount := js ''0''\<rparr>"
  have c1: "\<not> currencyRegex_test (trim (baseCurrency ?s1))"
    and c2: "currencyRegex_test (trim (baseCurrency ?s2))"
      "\<not> currencyRegex_test (trim (destCurrency ?s2))"
    and c3: "currencyRegex_test (trim (baseCurrency ?s3))"
      "currencyRegex_test (trim (destCurrency ?s3))"
    and c4: "currencyRegex_test (trim (baseCurrency initialState))"
      "currencyRegex_test (trim (destCurrency initialState))"
    by (simp_all add: initialState_def js_def trim_def isWhiteSpace_def currencyRegex_test_def
        isUpperAZ_def)
  have p3: "parseFloat (amount ?s3) = Fin False 0"
    by (simp add: literal_eval)
  have p4: "parseFloat (amount initialState) = Fin False 1"
    by (simp add: initialState_def literal_eval)
  have "validateInput ?s1 = (False, ?s1\<lparr>errorMessage := InvalidBaseCurrency\<rparr>)"
    using validate_order [where s = ?s1 and ucd = "\<lambda>t. t"] c1 by blast
  moreover have "validateInput ?s2 = (False, ?s2\<lparr>errorMessage := InvalidDestCurrency\<rparr>)"
    using validate_order [where s = ?s2 and ucd = "\<lambda>t. t"] c2 by blast
  moreover have "validateInput ?s3 = (False, ?s3\<lparr>errorMessage := InvalidAmount\<rparr>)"
    using validate_order [where s = ?s3 and ucd = "\<lambda>t. t"] c3 p3 by simp
  moreover have "validateInput initialState = (True, initialState)"
    using validate_order [where s = initialState and ucd = "\<lambda>t. t"] c4 p4
    by (simp add: isNaN_def)
  ultimately show ?thesis
    by simp
qed

text \<open>
  C4 as stated: the validation succeeds only for a finite amount, so that \<^verbatim>\<open>Infinity\<close>
  is rejected. \<^verbatim>\<open>parseFloat\<close> reads it as the positive infinity, which is neither NaN nor
  at most 0, and the validation succeeds.
\<close>

theorem infinity_accepted:
  "parseFloat (js ''Infinity'') = Infinity False \<and>
   validateInput (initialState\<lparr>amount := js ''Infinity''\<rparr>) =
     (True, initialState\<lparr>amount := js ''Infinity''\<rparr>)"
proof -
  have p: "parseFloat (js ''Infinity'') = Infinity False"
    by (simp add: literal_eval)
  have "fst (validateInput (initialState\<lparr>amount := js ''Infinity''\<rparr>))"
    by (simp add: validateInput_passes p isNaN_def)
       (simp add: initialState_def js_def trim_def isWhiteSpace_def currencyRegex_test_def isUpperAZ_def)
  with p show ?thesis
    by (simp add: validateInput_True)
qed

text \<open>
  C4, amended. When both codes pass the pattern, the validation fails with the amount
  message exactly when the amount parses to NaN or to a value at most 0, and it succeeds
  exactly when the amount parses to a Number greater than 0, which is a positive finite
  value or the positive infinity.
\<close>

theorem validate_amount:
  assumes "currencyRegex_test (trim (baseCurrency s))"
    and "currencyRegex_test (trim (destCurrency s))"
  shows "(validateInput s = (False, s\<lparr>errorMessage := InvalidAmount\<rparr>) \<longleftrightarrow>
            isNaN (parseFloat (amount s)) \<or> le_zero (parseFloat (amount s))) \<and>
         (validateInput s = (True, s) \<longleftrightarrow>
            parseFloat (amount s) = Infinity False \<or>
            (\<exists>a. 0 < a \<and> parseFloat (amount s) = Fin False a))"
  using assms positive_number [of "parseFloat (amount s)"]
  by (simp add: validateInput_amount validateInput_success validateInput_passes)

theorem validate_amount_witness:
  "validateInput (initialState\<lparr>amount := js ''-2.5''\<rparr>) =
     (False, initialState\<lparr>amount := js ''-2.5'', errorMessage := InvalidAmount\<rparr>) \<and>
   validateInput (initialState\<lparr>amount := js ''abc''\<rparr>) =
     (False, initialState\<lparr>amount := js ''abc'', errorMessage := InvalidAmount\<rparr>) \<and>
   validateInput (initialState\<lparr>amount := js '' 7e2''\<rparr>) = (True, initialState\<lparr>amount := js '' 7e2''\<rparr>) \<and>
   validateInput (initialState\<lparr>amount := js ''2.5''\<rparr>) = (True, initialState\<lparr>amount := js ''2.5''\<rparr>)"
proof -
  have b: "currencyRegex_test (trim (baseCurrency (initialState\<lparr>amount := x\<rparr>)))"
    and d: "currencyRegex_test (trim (destCurrency (initialState\<lparr>amount := x\<rparr>)))" for x
    by (simp_all add: initialState_def js_def trim_def isWhiteSpace_def currencyRegex_test_def
        isUpperAZ_def)
  have p1: "parseFloat (js ''-2.5'') = Fin True (5 / 2)"
    by (simp add: literal_eval)
  have p2: "parseFloat (js ''abc'') = NaN"
    by (simp add: literal_eval)
  have p3: "parseFloat (js '' 7e2'') = Fin False 700"
    by (simp add: literal_eval)
  have p4: "parseFloat (js ''2.5'') = Fin False (5 / 2)"
    by (simp add: literal_eval)
  have "validateInput (initialState\<lparr>amount := js ''-2.5''\<rparr>) =
     (False, initialState\<lparr>amount := js ''-2.5'', errorMessage := InvalidAmount\<rparr>)"
    using validate_amount [OF b d, of "js ''-2.5''"] by (simp add: p1)
  moreover have "validateInput (initialState\<lparr>amount := js ''abc''\<rparr>) =
     (False, initialState\<lparr>amount := js ''abc'', errorMessage := InvalidAmount\<rparr>)"
    using validate_amount [OF b d, of "js ''abc''"] by (simp add: p2 isNaN_def)
  moreover have "validateInput (initialState\<lparr>amount := js '' 7e2''\<rparr>) =
     (True, initialState\<lparr>amount := js '' 7e2''\<rparr>)"
    using validate_amount [OF b d, of "js '' 7e2''"] by (simp add: p3)
  moreover have "validateInput (initialState\<lparr>amount := js ''2.5''\<rparr>) =
     (True, initialState\<lparr>amount := js ''2.5''\<rparr>)"
    using validate_amount [OF b d, of "js ''2.5''"] by (auto simp: p4 intro!: exI [of _ "5 / 2"])
  ultimately show ?thesis
    by simp
qed

section \<open>Mapping of the response\<close>

lemma initialState_valid: "fst (validateInput initialState)"
proof -
  have "parseFloat (amount initialState) = Fin False 1"
    by (simp add: initialState_def literal_eval)
  moreover have "currencyRegex_test (trim (baseCurrency initialState))"
    and "currencyRegex_test (trim (destCurrency initialState))"
    by (simp_all add: initialState_def js_def trim_def isWhiteSpace_def currencyRegex_test_def
        isUpperAZ_def)
  ultimately show ?thesis
    by (simp add: validateInput_passes isNaN_def)
qed

lemma optProp_body: "optProp (Some (case body of None \<Rightarrow> JNull | Some j \<Rightarrow> j)) k = optProp body k"
  by (cases body) simp_all

lemma failureBranch_message:
  "failureBranch st body s =
     (s\<lparr>errorMessage :=
          (if st = 401 then InvalidApiKey
           else case optProp body (js ''message'') of
                  None \<Rightarrow> RequestFailed st
                | Some m \<Rightarrow> if truthy (Some m) then m else RequestFailed st)\<rparr>, [])"
  by (simp add: failureBranch_def optProp_body Let_def split: option.splits)

lemma successBranch_thrown:
  "body = None \<or> body = Some JNull \<Longrightarrow> successBranch n d body s = catchBlock s"
  by (auto simp: successBranch_def)

lemma successBranch_json:
  assumes "j \<noteq> JNull"
  shows "successBranch n d (Some j) s =
     (case optProp (optProp (Some j) (js ''data'')) d of
        None \<Rightarrow> (s\<lparr>errorMessage := UnknownCurrencyOrRate\<rparr>, [])
      | Some rate \<Rightarrow>
          if truthy (Some rate)
            then (case ToNumber rate of
                    None \<Rightarrow> catchBlock (s\<lparr>exchangeRate := Some rate\<rparr>)
                  | Some r \<Rightarrow>
                      (s\<lparr>exchangeRate := Some rate,
                         convertedAmount := Some (multiply n r)\<rparr>, []))
          else (s\<lparr>errorMessage := UnknownCurrencyOrRate\<rparr>, []))"
  using assms by (cases j) (simp_all add: successBranch_def)

text \<open>
  C5 as stated: every response with a success status gives the message of an unknown
  currency or rate exactly when the entry of the requested currency is absent or not truthy.
  A response with status 200 whose body is \<^verbatim>\<open>null\<close> has no such entry, and the handler
  sets the network message: reading \<^verbatim>\<open>json.data\<close> throws into the \<^verbatim>\<open>catch\<close> block.
\<close>

theorem null_body_network_error:
  "\<not> truthy (optProp (optProp (Some JNull) (js ''data'')) (js ''USD'')) \<and>
   errorMessage (fst (handleConvert (\<lambda>t. t) (\<lambda>u. Response 200 (Some JNull)) initialState)) = NetworkError \<and>
   NetworkError \<noteq> UnknownCurrencyOrRate"
proof -
  note v = initialState_valid
  show ?thesis
    by (simp add: handleConvert_valid [OF v] response_ok_def successBranch_thrown catchBlock_def
        messages_distinct)
qed

text \<open>
  C5, amended. For a validated input and a response with a success status whose body
  parses to a JSON value other than \<^verbatim>\<open>null\<close>, the handler sets the message of an unknown
  currency or rate exactly when the entry of the requested destination currency in
  \<^verbatim>\<open>data\<close> is absent or not truthy, and then leaves the result absent; a rate of 0 is
  such an entry. When the body does not parse, or is \<^verbatim>\<open>null\<close>, the handler sets the network
  message.
\<close>

theorem unknown_rate:
  assumes "fst (validateInput s)"
    and "fetch (requestUrl ucd s) = Response st body"
    and "response_ok st"
  shows "(body = None \<or> body = Some JNull \<longrightarrow>
            errorMessage (fst (handleConvert ucd fetch s)) = NetworkError) \<and>
         (\<forall>j. body = Some j \<and> j \<noteq> JNull \<longrightarrow>
            (errorMessage (fst (handleConvert ucd fetch s)) = UnknownCurrencyOrRate \<longleftrightarrow>
               \<not> truthy (optProp (optProp (Some j) (js ''data'')) (requestedDest ucd s))) \<and>
            (\<not> truthy (optProp (optProp (Some j) (js ''data'')) (requestedDest ucd s)) \<longrightarrow>
               convertedAmount (fst (handleConvert ucd fetch s)) = None \<and>
               exchangeRate (fst (handleConvert ucd fetch s)) = None))"
proof -
  let ?s' = "fst (handleConvert ucd fetch s)"
  have thrown: "errorMessage ?s' = NetworkError" if "body = None \<or> body = Some JNull"
    using assms that by (simp add: handleConvert_valid successBranch_thrown catchBlock_def)
  have parsed:
    "(errorMessage ?s' = UnknownCurrencyOrRate \<longleftrightarrow>
        \<not> truthy (optProp (optProp (Some j) (js ''data'')) (requestedDest ucd s))) \<and>
     (\<not> truthy (optProp (optProp (Some j) (js ''data'')) (requestedDest ucd s)) \<longrightarrow>
        convertedAmount ?s' = None \<and> exchangeRate ?s' = None)"
    if j: "body = Some j" "j \<noteq> JNull" for j
  proof -
    have h: "handleConvert ucd fetch s =
      (let r = successBranch (parseFloat (amount s)) (requestedDest ucd s) (Some j)
                 (s\<lparr>errorMessage := JStr [], convertedAmount := None, exchangeRate := None,
                     isLoading := True\<rparr>)
       in (fst r\<lparr>isLoading := False\<rparr>, snd r))"
      using assms j by (simp add: handleConvert_valid)
    show ?thesis
      using j(2) messages_nonempty(5) messages_distinct(4)
      by (cases "optProp (optProp (Some j) (js ''data'')) (requestedDest ucd s)")
         (auto simp: h successBranch_json catchBlock_def split: option.splits)
  qed
  show ?thesis
    using thrown parsed by blast
qed

theorem unknown_rate_witness:
  "errorMessage (fst (handleConvert (\<lambda>t. t)
     (\<lambda>u. Response 200 (Some (JObj [(js ''data'', JObj [(js ''USD'', JNum (Fin False 0))])])))
     initialState)) = UnknownCurrencyOrRate \<and>
   convertedAmount (fst (handleConvert (\<lambda>t. t)
     (\<lambda>u. Response 200 (Some (JObj [(js ''data'', JObj [(js ''USD'', JNum (Fin False 0))])])))
     initialState)) = None \<and>
   errorMessage (fst (handleConvert (\<lambda>t. t) (\<lambda>u. Response 200 None) initialState)) = NetworkError"
proof -
  let ?j = "JObj [(js ''data'', JObj [(js ''USD'', JNum (Fin False 0))])]"
  note v = initialState_valid
  have d: "requestedDest (\<lambda>t. t) initialState = js ''USD''"
    by (simp add: requestedDest_def initialState_def js_def trim_def isWhiteSpace_def
        toUpperCase_def isBasicLatin_def upperUnit_def)
  have r: "optProp (optProp (Some ?j) (js ''data'')) (js ''USD'') = Some (JNum (Fin False 0))"
    by (simp add: js_def)
  have ok: "response_ok 200"
    by (simp add: response_ok_def)
  show ?thesis
    using unknown_rate [OF v _ ok, where ucd = "\<lambda>t. t"
        and fetch = "\<lambda>u. Response 200 (Some ?j)" and body = "Some ?j"]
      unknown_rate [OF v _ ok, where ucd = "\<lambda>t. t"
        and fetch = "\<lambda>u. Response 200 None" and body = None]
    by (simp add: d r)
qed

text \<open>
  C6 as stated: a failed response other than 401 carries the provider's \<^verbatim>\<open>message\<close> field
  whenever the body contains one. For status 500 and the body \<^verbatim>\<open>{"message": ""}\<close> the
  body contains the field, and the handler sets the generic message.
\<close>

theorem empty_message_generic:
  "optProp (Some (JObj [(js ''message'', JStr [])])) (js ''message'') = Some (JStr []) \<and>
   errorMessage (fst (handleConvert (\<lambda>t. t)
     (\<lambda>u. Response 500 (Some (JObj [(js ''message'', JStr [])]))) initialState)) =
     JStr (js ''Request failed with status 500.'')"
proof -
  note v = initialState_valid
  show ?thesis
    by (simp add: handleConvert_valid [OF v] response_ok_def failureBranch_message
        RequestFailed_def)
       (simp add: js_def ToString_nat.simps)
qed

text \<open>
  C6, amended. For a validated input and a response without a success status: status 401
  gives the message of an invalid API key whatever the body is; every other status gives
  the provider's \<^verbatim>\<open>message\<close> field when the body has one that is truthy, and otherwise
  (no parsable body, no such field, or a field that is not truthy, such as the empty string)
  the generic message, which contains the status in decimal digits. The result stays absent
  and no alert is shown.
\<close>

theorem failed_response:
  assumes "fst (validateInput s)"
    and "fetch (requestUrl ucd s) = Response st body"
    and "\<not> response_ok st"
  shows "(st = 401 \<longrightarrow> errorMessage (fst (handleConvert ucd fetch s)) = InvalidApiKey) \<and>
         (st \<noteq> 401 \<longrightarrow>
            (\<forall>m. optProp body (js ''message'') = Some m \<and> truthy (Some m) \<longrightarrow>
               errorMessage (fst (handleConvert ucd fetch s)) = m) \<and>
            (\<not> truthy (optProp body (js ''message'')) \<longrightarrow>
               errorMessage (fst (handleConvert ucd fetch s)) =
                 JStr (js ''Request failed with status '' @ ToString_nat st @ js ''.''))) \<and>
         convertedAmount (fst (handleConvert ucd fetch s)) = None \<and>
         exchangeRate (fst (handleConvert ucd fetch s)) = None \<and>
         snd (handleConvert ucd fetch s) = []"
  using assms
  by (cases "optProp body (js ''message'')")
     (auto simp: handleConvert_valid failureBranch_message RequestFailed_def)

theorem failed_response_witness:
  "errorMessage (fst (handleConvert (\<lambda>t. t)
     (\<lambda>u. Response 401 (Some (JObj [(js ''message'', JStr (js ''no key''))]))) initialState)) =
     InvalidApiKey \<and>
   errorMessage (fst (handleConvert (\<lambda>t. t)
     (\<lambda>u. Response 429 (Some (JObj [(js ''message'', JStr (js ''slow down''))]))) initialState)) =
     JStr (js ''slow down'') \<and>
   errorMessage (fst (handleConvert (\<lambda>t. t) (\<lambda>u. Response 404 None) initialState)) =
     JStr (js ''Request failed with status 404.'')"
proof -
  let ?b1 = "Some (JObj [(js ''message'', JStr (js ''no key''))])"
  let ?b2 = "Some (JObj [(js ''message'', JStr (js ''slow down''))])"
  note v = initialState_valid
  have n: "\<not> response_ok 401" "\<not> response_ok 429" "\<not> response_ok 404"
    by (simp_all add: response_ok_def)
  have "errorMessage (fst (handleConvert (\<lambda>t. t) (\<lambda>u. Response 401 ?b1) initialState)) = InvalidApiKey"
    using failed_response [OF v _ n(1), where ucd = "\<lambda>t. t"
        and fetch = "\<lambda>u. Response 401 ?b1" and body = ?b1]
    by simp
  moreover have "errorMessage (fst (handleConvert (\<lambda>t. t) (\<lambda>u. Response 429 ?b2) initialState)) =
      JStr (js ''slow down'')"
    using failed_response [OF v _ n(2), where ucd = "\<lambda>t. t"
        and fetch = "\<lambda>u. Response 429 ?b2" and body = ?b2]
    by (simp add: js_def)
  moreover have "errorMessage (fst (handleConvert (\<lambda>t. t) (\<lambda>u. Response 404 None) initialState)) =
      JStr (js ''Request failed with status 404.'')"
    using failed_response [OF v _ n(3), where ucd = "\<lambda>t. t"
        and fetch = "\<lambda>u. Response 404 None" and body = None]
    by (simp add: js_def ToString_nat.simps)
  ultimately show ?thesis
    by simp
qed

text \<open>
  C7. For a validated input, when the request is rejected and no response is received, the
  handler sets the network message, leaves the result absent and shows the alert.
\<close>

theorem transport_failure:
  assumes "fst (validateInput s)"
    and "fetch (requestUrl ucd s) = Rejected"
  shows "handleConvert ucd fetch s =
    (s\<lparr>errorMessage := NetworkError, convertedAmount := None, exchangeRate := None,
        isLoading := False\<rparr>,
     [(js ''Network Error'', js ''Could not connect to the currency service.'')])"
  using assms by (simp add: handleConvert_valid catchBlock_def)

theorem transport_failure_witness:
  "handleConvert (\<lambda>t. t) (\<lambda>u. Rejected) initialState =
    (initialState\<lparr>errorMessage := NetworkError\<rparr>,
     [(js ''Network Error'', js ''Could not connect to the currency service.'')])"
proof -
  note v = initialState_valid
  show ?thesis
    using transport_failure [OF v, where ucd = "\<lambda>t. t" and fetch = "\<lambda>u. Rejected"]
    by (simp add: initialState_def)
qed

section \<open>The outcome of an attempt\<close>

lemma messages_truthy:
  "truthy (Some InvalidBaseCurrency)"
  "truthy (Some InvalidDestCurrency)"
  "truthy (Some InvalidAmount)"
  "truthy (Some InvalidApiKey)"
  "truthy (Some UnknownCurrencyOrRate)"
  "truthy (Some NetworkError)"
  "truthy (Some (RequestFailed st))"
  by (simp_all add: message_defs RequestFailed_def js_def)

text \<open>
  What the handler leaves depends on the three input cells and on the provider only: it
  overwrites the error message and the two result cells, and resets the loading flag once
  the validation has passed.
\<close>

lemma handleConvert_frame:
  assumes "baseCurrency s' = baseCurrency s"
    and "destCurrency s' = destCurrency s"
    and "amount s' = amount s"
  shows "handleConvert ucd fetch s' =
    (s'\<lparr>errorMessage := errorMessage (fst (handleConvert ucd fetch s)),
        convertedAmount := convertedAmount (fst (handleConvert ucd fetch s)),
        exchangeRate := exchangeRate (fst (handleConvert ucd fetch s)),
        isLoading := (if fst (validateInput s) then False else isLoading s')\<rparr>,
     snd (handleConvert ucd fetch s))"
proof (cases "fst (validateInput s)")
  case False
  then have "\<not> fst (validateInput s')"
    using assms by (simp add: validateInput_passes)
  with False show ?thesis
    using assms by (auto simp: handleConvert_invalid validateInput_def Let_def)
next
  case True
  then have v: "fst (validateInput s')"
    using assms by (simp add: validateInput_passes)
  have u: "requestUrl ucd s' = requestUrl ucd s" "requestedDest ucd s' = requestedDest ucd s"
    using assms by (simp_all add: requestUrl_def requestedDest_def)
  show ?thesis
  proof (cases "fetch (requestUrl ucd s)")
    case Rejected
    with True v u show ?thesis
      by (simp add: handleConvert_valid catchBlock_def)
  next
    case (Response st body)
    show ?thesis
    proof (cases "response_ok st")
      case False
      with Response True v u show ?thesis
        by (simp add: handleConvert_valid failureBranch_message)
    next
      case ok: True
      show ?thesis
      proof (cases "body = None \<or> body = Some JNull")
        case True
        with ok Response \<open>fst (validateInput s)\<close> v u show ?thesis
          by (auto simp: handleConvert_valid successBranch_thrown catchBlock_def)
      next
        case False
        then obtain j where j: "body = Some j" "j \<noteq> JNull"
          by auto
        with ok Response \<open>fst (validateInput s)\<close> v u assms show ?thesis
          by (cases "optProp (optProp (Some j) (js ''data'')) (requestedDest ucd s)")
             (auto simp: handleConvert_valid successBranch_json catchBlock_def Let_def
               split: option.splits)
      qed
    qed
  qed
qed

text \<open>
  C8. Once an attempt has settled, either both result cells are set and the error message
  is empty, or an error message is set and both result cells are \<^verbatim>\<open>null\<close>. The handler
  clears the three cells first, and every path keeps to this but one: when the rate is
  truthy and its conversion to a Number throws, \<^verbatim>\<open>setExchangeRate(rate)\<close> at line 105 has
  run before the multiplication at line 106 throws into the \<^verbatim>\<open>catch\<close> block. For the
  response \<^verbatim>\<open>{"data": {"USD": {"toString": 1}}}\<close> the attempt ends with the network
  message set and the exchange rate not \<^verbatim>\<open>null\<close>.
\<close>

theorem rate_kept_when_multiplication_throws:
  "handleConvert (\<lambda>t. t)
     (\<lambda>u. Response 200 (Some (JObj [(js ''data'',
        JObj [(js ''USD'', JObj [(js ''toString'', JNum (Fin False 1))])])])))
     initialState =
   (initialState\<lparr>exchangeRate := Some (JObj [(js ''toString'', JNum (Fin False 1))]),
      errorMessage := NetworkError\<rparr>,
    [(js ''Network Error'', js ''Could not connect to the currency service.'')])"
proof -
  let ?rate = "JObj [(js ''toString'', JNum (Fin False 1))]"
  let ?j = "JObj [(js ''data'', JObj [(js ''USD'', ?rate)])]"
  have d: "requestedDest (\<lambda>t. t) initialState = js ''USD''"
    by (simp add: requestedDest_def initialState_def js_def trim_def isWhiteSpace_def
        toUpperCase_def isBasicLatin_def upperUnit_def)
  have r: "optProp (optProp (Some ?j) (js ''data'')) (js ''USD'') = Some ?rate"
    by (simp add: js_def)
  have n: "ToNumber ?rate = None"
    by simp
  have "successBranch x (js ''USD'') (Some ?j) s = catchBlock (s\<lparr>exchangeRate := Some ?rate\<rparr>)"
    for x s
    by (simp add: successBranch_json r n del: ToNumber.simps)
  then show ?thesis
    by (simp add: handleConvert_valid [OF initialState_valid] response_ok_def d catchBlock_def)
       (simp add: initialState_def)
qed

text \<open>
  Every other attempt ends in one of the two ways: what is left is a result with an empty
  error message, an error message with both result cells \<^verbatim>\<open>null\<close>, or the case above, a
  stored rate whose conversion throws together with the network message.
\<close>

lemma handleConvert_outcome:
  "(convertedAmount (fst (handleConvert ucd fetch s)) \<noteq> None \<and>
    exchangeRate (fst (handleConvert ucd fetch s)) \<noteq> None \<and>
    errorMessage (fst (handleConvert ucd fetch s)) = JStr []) \<or>
   (convertedAmount (fst (handleConvert ucd fetch s)) = None \<and>
    exchangeRate (fst (handleConvert ucd fetch s)) = None \<and>
    truthy (Some (errorMessage (fst (handleConvert ucd fetch s))))) \<or>
   (convertedAmount (fst (handleConvert ucd fetch s)) = None \<and>
    (\<exists>rate. exchangeRate (fst (handleConvert ucd fetch s)) = Some rate \<and>
       truthy (Some rate) \<and> ToNumber rate = None) \<and>
    errorMessage (fst (handleConvert ucd fetch s)) = NetworkError)"
proof (cases "fst (validateInput s)")
  case False
  then show ?thesis
    by (auto simp: handleConvert_invalid validateInput_def Let_def messages_truthy)
next
  case True
  show ?thesis
  proof (cases "fetch (requestUrl ucd s)")
    case Rejected
    with True show ?thesis
      by (simp add: handleConvert_valid catchBlock_def messages_truthy)
  next
    case (Response st body)
    show ?thesis
    proof (cases "response_ok st")
      case False
      with Response True show ?thesis
        by (cases "optProp body (js ''message'')")
           (simp_all add: handleConvert_valid failureBranch_message messages_truthy)
    next
      case ok: True
      show ?thesis
      proof (cases "body = None \<or> body = Some JNull")
        case True
        with ok Response \<open>fst (validateInput s)\<close> show ?thesis
          by (auto simp: handleConvert_valid successBranch_thrown catchBlock_def messages_truthy)
      next
        case False
        then obtain j where j: "body = Some j" "j \<noteq> JNull"
          by auto
        with ok Response \<open>fst (validateInput s)\<close> show ?thesis
          by (cases "optProp (optProp (Some j) (js ''data'')) (requestedDest ucd s)")
             (auto simp: handleConvert_valid successBranch_json catchBlock_def messages_truthy
               Let_def split: option.splits)
      qed
    qed
  qed
qed

text \<open>
  C9. The outcome is a function of the three input cells and of the provider: from two
  states with the same inputs the handler leaves the same result cells, the same error
  message and the same alerts, whatever the cells held before; and running it again on the
  state it left, against the same provider, changes nothing.
\<close>

theorem deterministic:
  assumes "baseCurrency s' = baseCurrency s"
    and "destCurrency s' = destCurrency s"
    and "amount s' = amount s"
  shows "convertedAmount (fst (handleConvert ucd fetch s')) = convertedAmount (fst (handleConvert ucd fetch s)) \<and>
         exchangeRate (fst (handleConvert ucd fetch s')) = exchangeRate (fst (handleConvert ucd fetch s)) \<and>
         errorMessage (fst (handleConvert ucd fetch s')) = errorMessage (fst (handleConvert ucd fetch s)) \<and>
         snd (handleConvert ucd fetch s') = snd (handleConvert ucd fetch s) \<and>
         handleConvert ucd fetch (fst (handleConvert ucd fetch s)) = handleConvert ucd fetch s"
proof -
  have same: "handleConvert ucd fetch s = 
    (s\<lparr>errorMessage := errorMessage (fst (handleConvert ucd fetch s)),
        convertedAmount := convertedAmount (fst (handleConvert ucd fetch s)),
        exchangeRate := exchangeRate (fst (handleConvert ucd fetch s)),
        isLoading := (if fst (validateInput s) then False else isLoading s)\<rparr>,
     snd (handleConvert ucd fetch s))"
    by (rule handleConvert_frame) simp_all
  let ?t = "fst (handleConvert ucd fetch s)"
  have t: "baseCurrency ?t = baseCurrency s" "destCurrency ?t = destCurrency s"
    "amount ?t = amount s"
    by (subst same, simp)+
  have l: "fst (validateInput s) \<Longrightarrow> isLoading ?t = False"
    by (subst same) simp
  have "handleConvert ucd fetch ?t =
    (?t\<lparr>errorMessage := errorMessage ?t, convertedAmount := convertedAmount ?t,
        exchangeRate := exchangeRate ?t,
        isLoading := (if fst (validateInput s) then False else isLoading ?t)\<rparr>,
     snd (handleConvert ucd fetch s))"
    by (rule handleConvert_frame [OF t])
  also have "?t\<lparr>errorMessage := errorMessage ?t, convertedAmount := convertedAmount ?t,
        exchangeRate := exchangeRate ?t,
        isLoading := (if fst (validateInput s) then False else isLoading ?t)\<rparr> = ?t"
    by (rule state.equality) (simp_all add: l)
  finally have "handleConvert ucd fetch ?t = handleConvert ucd fetch s"
    by simp
  then show ?thesis
    using handleConvert_frame [OF assms, of ucd fetch] by simp
qed

theorem deterministic_witness:
  "convertedAmount (fst (handleConvert (\<lambda>t. t) (\<lambda>u. Response 200 None)
      (initialState\<lparr>convertedAmount := Some (Fin False 3), errorMessage := InvalidAmount,
         isLoading := True\<rparr>))) =
     convertedAmount (fst (handleConvert (\<lambda>t. t) (\<lambda>u. Response 200 None) initialState)) \<and>
   errorMessage (fst (handleConvert (\<lambda>t. t) (\<lambda>u. Response 200 None)
      (initialState\<lparr>convertedAmount := Some (Fin False 3), errorMessage := InvalidAmount,
         isLoading := True\<rparr>))) =
     errorMessage (fst (handleConvert (\<lambda>t. t) (\<lambda>u. Response 200 None) initialState)) \<and>
   handleConvert (\<lambda>t. t) (\<lambda>u. Response 200 None)
     (fst (handleConvert (\<lambda>t. t) (\<lambda>u. Response 200 None) initialState)) =
     handleConvert (\<lambda>t. t) (\<lambda>u. Response 200 None) initialState"
  using deterministic [where s' = "initialState\<lparr>convertedAmount := Some (Fin False 3),
      errorMessage := InvalidAmount, isLoading := True\<rparr>" and s = initialState
      and ucd = "\<lambda>t. t" and fetch = "\<lambda>u. Response 200 None"]
  by simp

section \<open>Amounts with trailing characters\<close>

text \<open>
  \<^verbatim>\<open>parseFloat\<close> reads the longest literal at the start of the string. Characters that
  follow a complete literal do not change what is read, as long as none of them is a digit:
  the only continuations of a literal without a further digit are a dot after the integer
  digits, which leaves the value, and an exponent letter or sign without digits, which is
  not consumed.
\<close>

lemma nondigits_takeWhile:
  assumes "list_all (\<lambda>c. \<not> isDigit c) rest"
  shows "takeWhile isDigit (xs @ rest) = takeWhile isDigit xs"
    and "dropWhile isDigit (xs @ rest) = dropWhile isDigit xs @ rest"
proof -
  have "takeWhile isDigit rest = []" and "dropWhile isDigit rest = rest"
    using assms by (cases rest; simp)+
  then show "takeWhile isDigit (xs @ rest) = takeWhile isDigit xs"
    and "dropWhile isDigit (xs @ rest) = dropWhile isDigit xs @ rest"
    by (induction xs) simp_all
qed

lemma nondigits_tl: "list_all (\<lambda>c. \<not> isDigit c) rest \<Longrightarrow> list_all (\<lambda>c. \<not> isDigit c) (tl rest)"
  by (cases rest) simp_all

lemma exponentPart_nondigits:
  assumes "list_all (\<lambda>c. \<not> isDigit c) rest"
  shows "exponentPart rest = (0, rest)"
proof (cases rest)
  case Nil
  then show ?thesis
    by (simp add: exponentPart_def)
next
  case (Cons c r)
  with assms have r: "list_all (\<lambda>c. \<not> isDigit c) r"
    by simp
  have "takeWhile isDigit r = []" "takeWhile isDigit (tl r) = []"
    using nondigits_takeWhile(1) [OF r, of "[]"]
      nondigits_takeWhile(1) [OF nondigits_tl [OF r], of "[]"]
    by simp_all
  then show ?thesis
    by (cases r) (simp_all add: exponentPart_def Cons)
qed

lemma exponentPart_append:
  assumes "exponentPart r2 = (ex, [])"
    and "list_all (\<lambda>c. \<not> isDigit c) rest"
  shows "fst (exponentPart (r2 @ rest)) = ex"
proof (cases r2)
  case Nil
  then have "ex = 0"
    using assms(1) by (simp add: exponentPart_def)
  with Nil show ?thesis
    by (simp add: exponentPart_nondigits [OF assms(2)])
next
  case (Cons c r)
  note t = nondigits_takeWhile [OF assms(2)]
  show ?thesis
  proof (cases r)
    case Nil
    with assms(1) Cons show ?thesis
      by (simp add: exponentPart_def split: if_splits)
  next
    case (Cons d r')
    with assms(1) \<open>r2 = c # r\<close> show ?thesis
      by (auto simp: exponentPart_def t split: if_splits)
  qed
qed

lemma unsignedDecimal_append:
  assumes "unsignedDecimal b = Some (v, [])"
    and "list_all (\<lambda>c. \<not> isDigit c) rest"
  shows "\<exists>r. unsignedDecimal (b @ rest) = Some (v, r)"
proof (cases "take 8 b = js ''Infinity''")
  case True
  then have "length (take 8 b) = 8"
    by (simp add: js_def)
  then have "take 8 (b @ rest) = take 8 b"
    by simp
  with True assms(1) show ?thesis
    by (simp add: unsignedDecimal_def)
next
  case False
  note t = nondigits_takeWhile [OF assms(2)]
  define ip where "ip = takeWhile isDigit b"
  define r1 where "r1 = dropWhile isDigit b"
  define dot where "dot = (r1 \<noteq> [] \<and> hd r1 = 46)"
  define fp where "fp = (if dot then takeWhile isDigit (tl r1) else [])"
  define r2 where "r2 = (if dot then dropWhile isDigit (tl r1) else r1)"
  define ex where "ex = fst (exponentPart r2)"
  have u: "unsignedDecimal b =
      (if ip = [] \<and> fp = [] then None
       else Some (Some (of_int (digitsValue (ip @ fp)) * pow10 (ex - int (length fp))),
                  snd (exponentPart r2)))"
    using False
    by (simp add: unsignedDecimal_def Let_def split_beta ip_def r1_def dot_def fp_def r2_def
        ex_def)
  with assms(1) have ne: "\<not> (ip = [] \<and> fp = [])"
    and v: "v = Some (of_int (digitsValue (ip @ fp)) * pow10 (ex - int (length fp)))"
    and e: "exponentPart r2 = (ex, [])"
    by (auto simp: ex_def split: if_splits intro: prod_eqI)
  have b: "b = ip @ r1"
    by (simp add: ip_def r1_def)
  have hd: "b \<noteq> [] \<and> (isDigit (hd b) \<or> hd b = 46)"
  proof (cases "ip = []")
    case True
    with ne have "fp \<noteq> []"
      by simp
    then have dot
      by (simp add: fp_def split: if_splits)
    with True b show ?thesis
      by (simp add: dot_def)
  next
    case False
    then have "b \<noteq> []" "isDigit (hd b)"
      using hd_in_set [of ip] set_takeWhileD [of "hd ip" isDigit b]
      by (auto simp: ip_def) (metis hd_append2 takeWhile_dropWhile_id)
    then show ?thesis
      by simp
  qed
  then have "hd (take 8 (b @ rest)) \<noteq> 73"
    by (cases b) (auto simp: isDigit_def)
  then have inf: "take 8 (b @ rest) \<noteq> js ''Infinity''"
    by (auto simp: js_def)
  have ip': "takeWhile isDigit (b @ rest) = ip" and r1': "dropWhile isDigit (b @ rest) = r1 @ rest"
    by (simp_all add: t ip_def r1_def)
  have "fst (exponentPart (r2 @ rest)) = ex"
    by (rule exponentPart_append [OF e assms(2)])
  show ?thesis
  proof (cases "r1 = []")
    case True
    then have "\<not> dot" "fp = []" "r2 = []"
      by (simp_all add: dot_def fp_def r2_def)
    with e have ex0: "ex = 0"
      by (simp add: exponentPart_def)
    have tr: "takeWhile isDigit (tl rest) = []" "dropWhile isDigit (tl rest) = tl rest"
      using nondigits_takeWhile [OF nondigits_tl [OF assms(2)], of "[]"] by simp_all
    have "exponentPart rest = (0, rest)" "exponentPart (tl rest) = (0, tl rest)"
      using assms(2) nondigits_tl [OF assms(2)] by (simp_all add: exponentPart_nondigits)
    with True \<open>fp = []\<close> ne ex0 v inf ip' r1' tr show ?thesis
      by (simp add: unsignedDecimal_def Let_def)
  next
    case False
    then have h: "r1 @ rest \<noteq> []" "hd (r1 @ rest) = hd r1" "tl (r1 @ rest) = tl r1 @ rest"
      by simp_all
    have x: "fst (exponentPart (r2 @ rest)) = ex"
      by (rule exponentPart_append [OF e assms(2)])
    show ?thesis
    proof (cases "hd r1 = 46")
      case True
      with False have d: dot
        by (simp add: dot_def)
      then have fp: "fp = takeWhile isDigit (tl r1)" and r2: "r2 = dropWhile isDigit (tl r1)"
        by (simp_all add: fp_def r2_def)
      have "unsignedDecimal (b @ rest) =
          Some (Some (of_int (digitsValue (ip @ fp)) *
                  pow10 (fst (exponentPart (r2 @ rest)) - int (length fp))),
                snd (exponentPart (r2 @ rest)))"
        using ne inf False True
        unfolding unsignedDecimal_def Let_def ip' r1' h
        by (simp add: t fp r2 split_beta)
      with x v show ?thesis
        by simp
    next
      case nodot: False
      then have d: "\<not> dot"
        by (simp add: dot_def)
      then have fp: "fp = []" and r2: "r2 = r1"
        by (simp_all add: fp_def r2_def)
      have "unsignedDecimal (b @ rest) =
          Some (Some (of_int (digitsValue (ip @ fp)) *
                  pow10 (fst (exponentPart (r2 @ rest)) - int (length fp))),
                snd (exponentPart (r2 @ rest)))"
        using ne inf False nodot
        unfolding unsignedDecimal_def Let_def ip' r1' h
        by (simp add: fp r2 split_beta)
      with x v show ?thesis
        by simp
    qed
  qed
qed

lemma decimalLiteral_append:
  assumes "decimalLiteral t = Some (n, [])"
    and "list_all (\<lambda>c. \<not> isDigit c) rest"
  shows "\<exists>r. decimalLiteral (t @ rest) = Some (n, r)"
proof -
  have ne: "t \<noteq> []"
    using assms(1) by (auto simp: decimalLiteral_def unsignedDecimal_def js_def)
  let ?body = "if hd t = 43 \<or> hd t = 45 then tl t else t"
  obtain v where u: "unsignedDecimal ?body = Some (v, [])" and n: "n = numberOf (hd t = 45) v"
    using assms(1) ne by (auto simp: decimalLiteral_def Let_def split: option.splits)
  from unsignedDecimal_append [OF u assms(2)] obtain r where
    "unsignedDecimal (?body @ rest) = Some (v, r)"
    by blast
  moreover have "(if hd t = 43 \<or> hd t = 45 then tl t else t) @ rest =
      (if hd (t @ rest) = 43 \<or> hd (t @ rest) = 45 then tl (t @ rest) else t @ rest)"
    using ne by simp
  ultimately show ?thesis
    using ne n by (simp add: decimalLiteral_def Let_def)
qed

lemma decimalLiteral_not_NaN: "decimalLiteral t = Some (n, r) \<Longrightarrow> \<not> isNaN n"
  by (auto simp: decimalLiteral_def numberOf_def round64_def Let_def isNaN_def
      split: option.splits if_splits)

lemma parseFloat_append:
  assumes "decimalLiteral (trimStart pre) = Some (n, [])"
    and "list_all (\<lambda>c. \<not> isDigit c) rest"
  shows "parseFloat pre = n" and "parseFloat (pre @ rest) = n"
proof -
  show "parseFloat pre = n"
    using assms(1) by (simp add: parseFloat_def)
  have "trimStart pre \<noteq> []"
    using assms(1) by (auto simp: decimalLiteral_def unsignedDecimal_def js_def)
  then have "trimStart (pre @ rest) = trimStart pre @ rest"
    unfolding trimStart_def
    by (metis dropWhile_append1 dropWhile_eq_Nil_conv)
  with decimalLiteral_append [OF assms] show "parseFloat (pre @ rest) = n"
    by (auto simp: parseFloat_def)
qed

text \<open>
  C10. An amount that is not a number as a whole is accepted when it starts with one: for a
  string made of a complete numeric literal (after optional white space: an optional sign
  and digits with an optional fraction and exponent, or \<^verbatim>\<open>Infinity\<close>) whose value is
  greater than 0, followed by any characters none of which is a digit, \<^verbatim>\<open>parseFloat\<close> reads
  the value of the literal alone, the validation succeeds, and the conversion multiplies
  that value by the rate. The amount \<^verbatim>\<open>5abc\<close> converts as 5.
\<close>

theorem numeric_prefix_amount:
  assumes "decimalLiteral (trimStart pre) = Some (n, [])"
    and "\<not> le_zero n"
    and "list_all (\<lambda>c. \<not> isDigit c) rest"
    and "amount s = pre @ rest"
    and "currencyRegex_test (trim (baseCurrency s))"
    and "currencyRegex_test (trim (destCurrency s))"
    and "fetch (requestUrl ucd s) = Response st (Some (JObj body))"
    and "response_ok st"
    and "map_of body (js ''data'') = Some (JObj data)"
    and "map_of data (requestedDest ucd s) = Some (JNum rate)"
    and "truthy (Some (JNum rate))"
  shows "parseFloat pre = n \<and>
         parseFloat (amount s) = n \<and>
         validateInput s = (True, s) \<and>
         convertedAmount (fst (handleConvert ucd fetch s)) = Some (multiply n rate)"
proof -
  have p: "parseFloat pre = n" "parseFloat (amount s) = n"
    using parseFloat_append [OF assms(1,3)] assms(4) by simp_all
  have "\<not> isNaN n"
    using assms(1) by (rule decimalLiteral_not_NaN)
  then have v: "fst (validateInput s)"
    using assms(2,5,6) by (simp add: validateInput_passes p)
  then have "convertedAmount (fst (handleConvert ucd fetch s)) =
      Some (multiply (parseFloat (amount s)) rate)"
    using assms(7-11) by (simp add: handleConvert_valid successBranch_def)
  with p v show ?thesis
    by (simp add: validateInput_True)
qed

theorem numeric_prefix_amount_witness:
  "parseFloat (js ''5abc'') = Fin False 5 \<and>
   parseFloat (js ''2.5abc'') = Fin False (5 / 2) \<and>
   parseFloat (js ''+5abc'') = Fin False 5 \<and>
   parseFloat (js '' 5abc'') = Fin False 5 \<and>
   parseFloat (js ''5euro'') = Fin False 5 \<and>
   parseFloat (js ''5.x'') = Fin False 5 \<and>
   parseFloat (js ''5e3abc'') = Fin False 5000 \<and>
   validateInput (initialState\<lparr>amount := js ''5abc''\<rparr>) =
     (True, initialState\<lparr>amount := js ''5abc''\<rparr>) \<and>
   convertedAmount (fst (handleConvert (\<lambda>t. t)
     (\<lambda>u. Response 200 (Some (JObj [(js ''data'', JObj [(js ''USD'', JNum (Fin False (1 / 2)))])])))
     (initialState\<lparr>amount := js ''5abc''\<rparr>))) = Some (Fin False (5 / 2))"
proof -
  let ?data = "[(js ''USD'', JNum (Fin False (1 / 2)))]"
  let ?body = "[(js ''data'', JObj ?data)]"
  let ?fetch = "\<lambda>u::jsstring. Response 200 (Some (JObj ?body))"
  have c: "currencyRegex_test (trim (baseCurrency (initialState\<lparr>amount := a\<rparr>)))"
    "currencyRegex_test (trim (destCurrency (initialState\<lparr>amount := a\<rparr>)))" for a
    by (simp_all add: initialState_def js_def trim_def isWhiteSpace_def currencyRegex_test_def
        isUpperAZ_def)
  have d: "map_of ?data (requestedDest (\<lambda>t. t) (initialState\<lparr>amount := a\<rparr>)) =
      Some (JNum (Fin False (1 / 2)))" for a
    by (simp add: requestedDest_def initialState_def js_def trim_def isWhiteSpace_def
        toUpperCase_def isBasicLatin_def upperUnit_def)
  have ok: "response_ok 200"
    by (simp add: response_ok_def)
  have w: "parseFloat (pre @ rest) = n \<and>
      validateInput (initialState\<lparr>amount := pre @ rest\<rparr>) =
        (True, initialState\<lparr>amount := pre @ rest\<rparr>) \<and>
      convertedAmount (fst (handleConvert (\<lambda>t. t) ?fetch (initialState\<lparr>amount := pre @ rest\<rparr>))) =
        Some (multiply n (Fin False (1 / 2)))"
    if "decimalLiteral (trimStart pre) = Some (n, [])" "\<not> le_zero n"
      "list_all (\<lambda>c. \<not> isDigit c) rest" for pre rest n
    using numeric_prefix_amount [where s = "initialState\<lparr>amount := pre @ rest\<rparr>"
        and ucd = "\<lambda>t. t" and fetch = ?fetch and st = 200 and body = ?body and data = ?data
        and rate = "Fin False (1 / 2)", OF that _ c _ ok _ d]
    by simp
  have l1: "decimalLiteral (trimStart (js ''5'')) = Some (Fin False 5, [])"
    and l2: "decimalLiteral (trimStart (js ''2.5'')) = Some (Fin False (5 / 2), [])"
    and l3: "decimalLiteral (trimStart (js ''+5'')) = Some (Fin False 5, [])"
    and l4: "decimalLiteral (trimStart (js '' 5'')) = Some (Fin False 5, [])"
    and l5: "decimalLiteral (trimStart (js ''5e3'')) = Some (Fin False 5000, [])"
    by (simp_all add: literal_eval)
  have r: "list_all (\<lambda>c. \<not> isDigit c) (js ''abc'')" "list_all (\<lambda>c. \<not> isDigit c) (js ''euro'')"
    "list_all (\<lambda>c. \<not> isDigit c) (js ''.x'')"
    by (simp_all add: js_def isDigit_def)
  have j: "js ''5'' @ js ''abc'' = js ''5abc''" "js ''2.5'' @ js ''abc'' = js ''2.5abc''"
    "js ''+5'' @ js ''abc'' = js ''+5abc''" "js '' 5'' @ js ''abc'' = js '' 5abc''"
    "js ''5'' @ js ''euro'' = js ''5euro''" "js ''5'' @ js ''.x'' = js ''5.x''"
    "js ''5e3'' @ js ''abc'' = js ''5e3abc''"
    by (simp_all add: js_def)
  have m: "multiply (Fin False 5) (Fin False (1 / 2)) = Fin False (5 / 2)"
    by (simp add: literal_eval)
  show ?thesis
    using w [OF l1 _ r(1)] w [OF l2 _ r(1)] w [OF l3 _ r(1)] w [OF l4 _ r(1)]
      w [OF l1 _ r(2)] w [OF l1 _ r(3)] w [OF l5 _ r(1)]
    unfolding j m by simp
qed

end
